theory Spec2Isabelle
  imports Main "HOL-Library.Word"
begin

unbundle bit_operations_syntax

section \<open>Bytes, sizes and return codes\<close>

type_synonym byte = "8 word"
type_synonym word32 = "32 word"

text \<open>
  The return codes used by \<^verbatim>\<open>dh.c\<close>. A C return value of 0 is the absence of an
  error: a local \<^verbatim>\<open>int ret\<close> is an \<open>error option\<close> (\<open>None\<close> for 0), and a
  function's result is \<open>Inl\<close> of the code it returns or \<open>Inr\<close> of what it hands back.
  \<open>RNG_FAILURE r\<close> is the non-zero code \<open>r\<close> the random source returned.
\<close>

datatype error =
    BAD_FUNC_ARG | MEMORY_E | MP_INIT_E | MP_READ_E | MP_EXPTMOD_E | MP_TO_E
  | MP_SUB_E | MP_CMP_E | ASN_DH_KEY_E | DH_CHECK_PUB_E | RNG_FAILURE int

section \<open>The arithmetic engine\<close>

text \<open>
  The big-integer engine (\<^verbatim>\<open>mp_init\<close>, \<^verbatim>\<open>mp_read_unsigned_bin\<close>, \<^verbatim>\<open>mp_exptmod\<close>, ...)
  is a collaborator of \<^verbatim>\<open>dh.c\<close>. Its handles are the \<^verbatim>\<open>mp_int\<close> objects
  \<^verbatim>\<open>dh.c\<close> names: the two fields of the key object at address \<open>k\<close>, and the local
  variables \<^verbatim>\<open>x\<close>, \<^verbatim>\<open>y\<close>, \<^verbatim>\<open>z\<close> of \<^verbatim>\<open>GeneratePublic\<close>, \<^verbatim>\<open>wc_DhCheckPubKey\<close>
  and \<^verbatim>\<open>wc_DhAgree\<close>.
\<close>

datatype handle =
    Key_p nat | Key_g nat
  | GenPub_x | GenPub_y
  | Check_x | Check_y
  | Agree_x | Agree_y | Agree_z

datatype mp_ord = MP_LT | MP_EQ | MP_GT

text \<open>Every call into the engine that can change a handle is recorded, with its operands.\<close>

datatype event =
    E_init "handle list"
  | E_clear handle
  | E_read handle "byte list"
  | E_copy handle handle
  | E_sub_d handle int handle
  | E_exptmod handle handle handle handle
  | E_to_bin handle

text \<open>
  The engine's state: the handles whose storage is allocated, the integer each handle
  holds, the calls made so far, and a fault schedule. Each operation that reports
  success or failure takes the next entry of the schedule; \<open>True\<close> makes that call fail
  (an allocation failure can strike any call), and an exhausted schedule means no
  further fault.
\<close>

record engine =
  faults :: "bool list"
  live :: "handle set"
  vals :: "handle \<Rightarrow> int"
  trace :: "event list"

text \<open>
  Modelled from the spec: the engine is not part of \<^verbatim>\<open>dh.c\<close>; "each operation reports
  success/failure". \<open>engine_call ev bad upd\<close> is one such operation: it records \<open>ev\<close>,
  takes the next fault, fails on a fault or when \<open>bad\<close> holds, and otherwise applies
  \<open>upd\<close>.
\<close>

definition engine_call :: "event \<Rightarrow> bool \<Rightarrow> (engine \<Rightarrow> engine) \<Rightarrow> engine \<Rightarrow> bool \<times> engine" where
  "engine_call ev bad upd e =
     (let f = (case faults e of [] \<Rightarrow> False | b # _ \<Rightarrow> b);
          e1 = e\<lparr>faults := (case faults e of [] \<Rightarrow> [] | _ # fs \<Rightarrow> fs),
                 trace := trace e @ [ev]\<rparr>
      in if f \<or> bad then (False, e1) else (True, upd e1))"

text \<open>Modelled from the spec: "init/release a big-integer handle".\<close>

definition mp_init :: "handle \<Rightarrow> engine \<Rightarrow> bool \<times> engine" where
  "mp_init h =
     engine_call (E_init [h]) False
       (\<lambda>e. e\<lparr>live := insert h (live e), vals := (vals e)(h := 0)\<rparr>)"

text \<open>
  Modelled from the spec: \<^verbatim>\<open>mp_init_multi\<close> initialises all its handles or none
  (a failure leaves no handle of the call allocated).
\<close>

definition mp_init_multi :: "handle list \<Rightarrow> engine \<Rightarrow> bool \<times> engine" where
  "mp_init_multi hs =
     engine_call (E_init hs) False
       (\<lambda>e. e\<lparr>live := set hs \<union> live e,
               vals := (\<lambda>h. if h \<in> set hs then 0 else vals e h)\<rparr>)"

text \<open>
  Modelled from the spec: releasing a handle frees its storage; \<^verbatim>\<open>mp_clear\<close> reports
  nothing.
\<close>

definition mp_clear :: "handle \<Rightarrow> engine \<Rightarrow> engine" where
  "mp_clear h e =
     e\<lparr>live := live e - {h}, vals := (vals e)(h := 0), trace := trace e @ [E_clear h]\<rparr>"

text \<open>
  Modelled from the spec: "decode unsigned big-endian bytes into a handle". The number a
  buffer stands for:
\<close>

definition read_unsigned_bin :: "byte list \<Rightarrow> nat" where
  "read_unsigned_bin bs = foldl (\<lambda>a b. a * 256 + unat b) 0 bs"

text \<open>
  Modelled from the spec: "encode a handle to minimal big-endian bytes": no leading zero
  byte, and no byte at all for 0.
\<close>

function to_unsigned_bin :: "nat \<Rightarrow> byte list" where
  "to_unsigned_bin n =
     (if n = 0 then [] else to_unsigned_bin (n div 256) @ [of_nat (n mod 256)])"
  by pat_completeness auto
termination
  by (relation "measure id") auto

declare to_unsigned_bin.simps [simp del]

text \<open>Modelled from the spec: the decoding call, which stores the number in the handle.\<close>

definition mp_read_unsigned_bin :: "handle \<Rightarrow> byte list \<Rightarrow> engine \<Rightarrow> bool \<times> engine" where
  "mp_read_unsigned_bin h bs =
     engine_call (E_read h bs) False
       (\<lambda>e. e\<lparr>vals := (vals e)(h := int (read_unsigned_bin bs))\<rparr>)"

text \<open>
  Modelled from the spec: the encoding call, which writes the magnitude of the handle's
  value.
\<close>

definition mp_to_unsigned_bin :: "handle \<Rightarrow> engine \<Rightarrow> (bool \<times> byte list) \<times> engine" where
  "mp_to_unsigned_bin h e =
     (case engine_call (E_to_bin h) False (\<lambda>e. e) e of
        (ok, e1) \<Rightarrow> ((ok, if ok then to_unsigned_bin (nat \<bar>vals e h\<bar>) else []), e1))"

text \<open>Modelled from the spec: "report encoded byte length".\<close>

definition mp_unsigned_bin_size :: "engine \<Rightarrow> handle \<Rightarrow> nat" where
  "mp_unsigned_bin_size e h = length (to_unsigned_bin (nat \<bar>vals e h\<bar>))"

text \<open>
  Modelled from the spec: "compare two handles and compare a handle to a small integer".
  Handles hold signed integers.
\<close>

definition cmp_int :: "int \<Rightarrow> int \<Rightarrow> mp_ord" where
  "cmp_int a b = (if a < b then MP_LT else if a = b then MP_EQ else MP_GT)"

text \<open>Modelled from the spec: comparison of a handle with a small integer.\<close>

definition mp_cmp_d :: "engine \<Rightarrow> handle \<Rightarrow> int \<Rightarrow> mp_ord" where
  "mp_cmp_d e a d = cmp_int (vals e a) d"

text \<open>Modelled from the spec: comparison of two handles.\<close>

definition mp_cmp :: "engine \<Rightarrow> handle \<Rightarrow> handle \<Rightarrow> mp_ord" where
  "mp_cmp e a b = cmp_int (vals e a) (vals e b)"

text \<open>Modelled from the spec: copying one handle's value into another.\<close>

definition mp_copy :: "handle \<Rightarrow> handle \<Rightarrow> engine \<Rightarrow> bool \<times> engine" where
  "mp_copy a b =
     engine_call (E_copy a b) False (\<lambda>e. e\<lparr>vals := (vals e)(b := vals e a)\<rparr>)"

text \<open>
  Modelled from the spec: "subtract a small integer from a handle"; the result is
  negative when the value is smaller than the integer.
\<close>

definition mp_sub_d :: "handle \<Rightarrow> int \<Rightarrow> handle \<Rightarrow> engine \<Rightarrow> bool \<times> engine" where
  "mp_sub_d a d c =
     engine_call (E_sub_d a d c) False (\<lambda>e. e\<lparr>vals := (vals e)(c := vals e a - d)\<rparr>)"

text \<open>
  Modelled from the spec: "compute modular exponentiation (base, exponent, modulus)
  \<rightarrow> result handle". The engine refuses a modulus that is not positive and an exponent
  that is negative.
\<close>

definition mp_exptmod :: "handle \<Rightarrow> handle \<Rightarrow> handle \<Rightarrow> handle \<Rightarrow> engine \<Rightarrow> bool \<times> engine" where
  "mp_exptmod g x p y e =
     engine_call (E_exptmod g x p y) (vals e p \<le> 0 \<or> vals e x < 0)
       (\<lambda>e. e\<lparr>vals := (vals e)(y := vals e g ^ nat (vals e x) mod vals e p)\<rparr>) e"

section \<open>The guarded-error chain of \<^verbatim>\<open>dh.c\<close>\<close>

text \<open>
  \<^verbatim>\<open>if (ret == 0 && op(...) != MP_OKAY) ret = code;\<close>: the operation runs only while
  \<^verbatim>\<open>ret\<close> is still 0.
\<close>

definition guarded :: "error option \<Rightarrow> (engine \<Rightarrow> bool \<times> engine) \<Rightarrow> error \<Rightarrow> engine \<Rightarrow> error option \<times> engine" where
  "guarded ret op code e =
     (case ret of
        Some err \<Rightarrow> (Some err, e)
      | None \<Rightarrow> (case op e of (ok, e1) \<Rightarrow> (if ok then None else Some code, e1)))"

definition result :: "error option \<Rightarrow> 'a \<Rightarrow> error + 'a" where
  "result ret out = (case ret of None \<Rightarrow> Inr out | Some err \<Rightarrow> Inl err)"

section \<open>\<^verbatim>\<open>wc_InitDhKey\<close> and \<^verbatim>\<open>wc_FreeDhKey\<close>\<close>

text \<open>A \<^verbatim>\<open>DhKey*\<close> is \<open>None\<close> for \<^verbatim>\<open>NULL\<close> and \<open>Some k\<close> for the key object at \<open>k\<close>.\<close>

definition wc_InitDhKey :: "nat option \<Rightarrow> engine \<Rightarrow> (error + unit) \<times> engine" where
  "wc_InitDhKey key e =
     (case key of
        None \<Rightarrow> (Inl BAD_FUNC_ARG, e)
      | Some k \<Rightarrow>
          (case mp_init_multi [Key_p k, Key_g k] e of
             (ok, e1) \<Rightarrow> (if ok then Inr () else Inl MEMORY_E, e1)))"

text \<open>\<^verbatim>\<open>wc_FreeDhKey\<close> as built without \<^verbatim>\<open>USE_FAST_MATH\<close>.\<close>

definition wc_FreeDhKey :: "nat option \<Rightarrow> engine \<Rightarrow> engine" where
  "wc_FreeDhKey key e =
     (case key of
        None \<Rightarrow> e
      | Some k \<Rightarrow> mp_clear (Key_g k) (mp_clear (Key_p k) e))"

section \<open>\<^verbatim>\<open>wc_DhCheckPubKey\<close>\<close>

text \<open>
  A \<^verbatim>\<open>const byte*\<close> with its size is \<open>None\<close> for \<^verbatim>\<open>NULL\<close> and \<open>Some bs\<close> for a buffer
  holding the bytes \<open>bs\<close>, the size being \<open>length bs\<close>.
\<close>

definition wc_DhCheckPubKey :: "nat option \<Rightarrow> byte list option \<Rightarrow> engine \<Rightarrow> (error + unit) \<times> engine" where
  "wc_DhCheckPubKey key pub e =
     (case key of
        None \<Rightarrow> (Inl BAD_FUNC_ARG, e)
      | Some k \<Rightarrow>
     (case pub of
        None \<Rightarrow> (Inl BAD_FUNC_ARG, e)
      | Some pb \<Rightarrow>
     (case mp_init_multi [Check_x, Check_y] e of
        (False, e0) \<Rightarrow> (Inl MP_INIT_E, e0)
      | (True, e0) \<Rightarrow>
     (case guarded None (mp_read_unsigned_bin Check_x pb) MP_READ_E e0 of (ret1, e1) \<Rightarrow>
      let ret2 = (if ret1 = None \<and> mp_cmp_d e1 Check_x 2 = MP_LT
                  then Some MP_CMP_E else ret1) in
     (case guarded ret2 (mp_copy (Key_p k) Check_y) MP_INIT_E e1 of (ret3, e3) \<Rightarrow>
     (case guarded ret3 (mp_sub_d Check_y 2 Check_y) MP_SUB_E e3 of (ret4, e4) \<Rightarrow>
      let ret5 = (if ret4 = None \<and> mp_cmp e4 Check_x Check_y = MP_GT
                  then Some MP_CMP_E else ret4) in
      (result ret5 (), mp_clear Check_x (mp_clear Check_y e4))))))))"

section \<open>\<^verbatim>\<open>GeneratePrivate\<close>\<close>

text \<open>
  \<^verbatim>\<open>DiscreteLogWorkFactor\<close> computes
  \<^verbatim>\<open>(word32)(2.4 * XPOW((double)n, 1.0/3.0) * XPOW(XLOG((double)n), 2.0/3.0) - 5)\<close> in
  floating point. The parameter \<open>fp\<close> stands for the value of that expression; the
  guard \<^verbatim>\<open>n < 5\<close> is the code's.
\<close>

definition DiscreteLogWorkFactor :: "(word32 \<Rightarrow> word32) \<Rightarrow> word32 \<Rightarrow> word32" where
  "DiscreteLogWorkFactor fp n = (if n < 5 then 0 else fp n)"

text \<open>
  \<^verbatim>\<open>WOLFSSL_DH_ROUND\<close> is empty unless \<^verbatim>\<open>WOLFSSL_DH_CONST\<close> is defined; \<open>dh_const\<close> is
  that build option.
\<close>

definition WOLFSSL_DH_ROUND :: "bool \<Rightarrow> word32 \<Rightarrow> word32" where
  "WOLFSSL_DH_ROUND dh_const x =
     (if dh_const \<and> x mod 128 \<noteq> 0 then (x AND 0xffffff80) + 128 else x)"

text \<open>
  Modelled from the spec: \<^verbatim>\<open>WOLFSSL_BIT_SIZE\<close> is declared outside \<^verbatim>\<open>dh.c\<close>; the
  spec has "bits = modulusByteLength \<times> 8".
\<close>

definition WOLFSSL_BIT_SIZE :: word32 where
  "WOLFSSL_BIT_SIZE = 8"

text \<open>The sizing step of \<^verbatim>\<open>GeneratePrivate\<close>: the rounding and the \<^verbatim>\<open>switch\<close>.\<close>

definition private_size :: "bool \<Rightarrow> (word32 \<Rightarrow> word32) \<Rightarrow> word32 \<Rightarrow> error + word32" where
  "private_size dh_const fp sz0 =
     (let sz = WOLFSSL_DH_ROUND dh_const sz0 in
      if sz = 128 then Inr 21
      else if sz = 256 then Inr 29
      else if sz = 384 then Inr 34
      else if sz = 512 then Inr 39
      else if sz = 640 then Inr 42
      else if sz = 768 then Inr 46
      else if sz = 896 then Inr 49
      else if sz = 1024 then Inr 52
      else if dh_const then Inl BAD_FUNC_ARG
      else Inr (min sz (2 * DiscreteLogWorkFactor fp (sz * WOLFSSL_BIT_SIZE)
                          div WOLFSSL_BIT_SIZE + 1)))"

text \<open>
  Modelled from the spec: the random source "fill[s] a buffer of a requested byte count
  with cryptographically strong random bytes; reports failure on entropy exhaustion or
  generator fault". A source is the code it returns and the bytes it would deliver.
\<close>

record WC_RNG =
  rng_ret :: int
  rng_bytes :: "nat \<Rightarrow> byte"

text \<open>
  Modelled from the spec: a request of \<open>sz\<close> bytes fails with the source's code or
  delivers its first \<open>sz\<close> bytes.
\<close>

definition wc_RNG_GenerateBlock :: "WC_RNG \<Rightarrow> nat \<Rightarrow> int + byte list" where
  "wc_RNG_GenerateBlock rng sz =
     (if rng_ret rng \<noteq> 0 then Inl (rng_ret rng) else Inr (map (rng_bytes rng) [0..<sz]))"

text \<open>
  The private value handed back is the first \<^verbatim>\<open>*privSz\<close> bytes of \<^verbatim>\<open>priv\<close>. With a
  size of 0 the write \<^verbatim>\<open>priv[0] |= 0x0C\<close> falls outside those bytes.
\<close>

definition GeneratePrivate :: "bool \<Rightarrow> (word32 \<Rightarrow> word32) \<Rightarrow> nat \<Rightarrow> WC_RNG \<Rightarrow> engine \<Rightarrow> error + byte list" where
  "GeneratePrivate dh_const fp k rng e =
     (case private_size dh_const fp (of_nat (mp_unsigned_bin_size e (Key_p k))) of
        Inl err \<Rightarrow> Inl err
      | Inr sz \<Rightarrow>
          (case wc_RNG_GenerateBlock rng (unat sz) of
             Inl r \<Rightarrow> Inl (RNG_FAILURE r)
           | Inr priv \<Rightarrow>
               Inr (case priv of [] \<Rightarrow> [] | b # bs \<Rightarrow> (b OR 0x0C) # bs)))"

section \<open>\<^verbatim>\<open>GeneratePublic\<close> and \<^verbatim>\<open>wc_DhGenerateKeyPair\<close>\<close>

definition GeneratePublic :: "nat \<Rightarrow> byte list \<Rightarrow> engine \<Rightarrow> (error + byte list) \<times> engine" where
  "GeneratePublic k priv e =
     (case mp_init_multi [GenPub_x, GenPub_y] e of
        (False, e0) \<Rightarrow> (Inl MP_INIT_E, e0)
      | (True, e0) \<Rightarrow>
     (case guarded None (mp_read_unsigned_bin GenPub_x priv) MP_READ_E e0 of (ret1, e1) \<Rightarrow>
     (case guarded ret1 (mp_exptmod (Key_g k) GenPub_x (Key_p k) GenPub_y) MP_EXPTMOD_E e1
        of (ret2, e2) \<Rightarrow>
     (case (case ret2 of
              Some err \<Rightarrow> ((Some err, []), e2)
            | None \<Rightarrow>
                (case mp_to_unsigned_bin GenPub_y e2 of
                   ((ok, pub), e3) \<Rightarrow> ((if ok then None else Some MP_TO_E, pub), e3)))
        of ((ret3, pub), e3) \<Rightarrow>
      (result ret3 (take (mp_unsigned_bin_size e3 GenPub_y) pub),
       mp_clear GenPub_x (mp_clear GenPub_y e3))))))"

definition wc_DhGenerateKeyPair :: "bool \<Rightarrow> (word32 \<Rightarrow> word32) \<Rightarrow> nat \<Rightarrow> WC_RNG \<Rightarrow> engine \<Rightarrow> (error + byte list \<times> byte list) \<times> engine" where
  "wc_DhGenerateKeyPair dh_const fp k rng e =
     (case GeneratePrivate dh_const fp k rng e of
        Inl err \<Rightarrow> (Inl err, e)
      | Inr priv \<Rightarrow>
          (case GeneratePublic k priv e of
             (Inl err, e1) \<Rightarrow> (Inl err, e1)
           | (Inr pub, e1) \<Rightarrow> (Inr (priv, pub), e1)))"

section \<open>\<^verbatim>\<open>wc_DhAgree\<close>\<close>

text \<open>
  The check fails on a \<^verbatim>\<open>NULL\<close> key or peer buffer, so past it both are present; the
  last branch below is never taken.
\<close>

definition wc_DhAgree :: "nat option \<Rightarrow> byte list \<Rightarrow> byte list option \<Rightarrow> engine \<Rightarrow> (error + byte list) \<times> engine" where
  "wc_DhAgree key priv otherPub e =
     (case wc_DhCheckPubKey key otherPub e of
        (Inl err, ec) \<Rightarrow> (Inl DH_CHECK_PUB_E, ec)
      | (Inr u, ec) \<Rightarrow>
     (case (key, otherPub) of
        (Some k, Some pb) \<Rightarrow>
     (case mp_init_multi [Agree_x, Agree_y, Agree_z] ec of
        (False, e0) \<Rightarrow> (Inl MP_INIT_E, e0)
      | (True, e0) \<Rightarrow>
     (case guarded None (mp_read_unsigned_bin Agree_x priv) MP_READ_E e0 of (ret1, e1) \<Rightarrow>
     (case guarded ret1 (mp_read_unsigned_bin Agree_y pb) MP_READ_E e1 of (ret2, e2) \<Rightarrow>
     (case guarded ret2 (mp_exptmod Agree_y Agree_x (Key_p k) Agree_z) MP_EXPTMOD_E e2
        of (ret3, e3) \<Rightarrow>
     (case (case ret3 of
              Some err \<Rightarrow> ((Some err, []), e3)
            | None \<Rightarrow>
                (case mp_to_unsigned_bin Agree_z e3 of
                   ((ok, agree), e4) \<Rightarrow> ((if ok then None else Some MP_TO_E, agree), e4)))
        of ((ret4, agree), e4) \<Rightarrow>
      (result ret4 (take (mp_unsigned_bin_size e4 Agree_z) agree),
       mp_clear Agree_x (mp_clear Agree_y (mp_clear Agree_z e4))))))))
      | _ \<Rightarrow> (Inl DH_CHECK_PUB_E, ec)))"

section \<open>\<^verbatim>\<open>wc_DhSetKey\<close>\<close>

text \<open>\<^verbatim>\<open>if (p[0] == 0) { pSz--; p++; }\<close> on a buffer of at least one byte.\<close>

definition skip_leading_zero :: "byte list \<Rightarrow> byte list" where
  "skip_leading_zero bs = (case bs of [] \<Rightarrow> [] | b # rest \<Rightarrow> if b = 0 then rest else bs)"

definition wc_DhSetKey :: "nat option \<Rightarrow> byte list option \<Rightarrow> byte list option \<Rightarrow> engine \<Rightarrow> (error + unit) \<times> engine" where
  "wc_DhSetKey key p g e =
     (case (key, p, g) of
        (Some k, Some pb, Some gb) \<Rightarrow>
          if pb = [] \<or> gb = [] then (Inl BAD_FUNC_ARG, e)
          else
            let pb1 = skip_leading_zero pb; gb1 = skip_leading_zero gb in
            (case mp_init (Key_p k) e of
               (False, e1) \<Rightarrow> (Inl MP_INIT_E, e1)
             | (True, e1) \<Rightarrow>
            (case mp_read_unsigned_bin (Key_p k) pb1 e1 of
               (False, e2) \<Rightarrow> (Inl ASN_DH_KEY_E, mp_clear (Key_p k) e2)
             | (True, e2) \<Rightarrow>
            (case mp_init (Key_g k) e2 of
               (False, e3) \<Rightarrow> (Inl MP_INIT_E, mp_clear (Key_p k) e3)
             | (True, e3) \<Rightarrow>
            (case mp_read_unsigned_bin (Key_g k) gb1 e3 of
               (False, e4) \<Rightarrow> (Inl ASN_DH_KEY_E, mp_clear (Key_p k) (mp_clear (Key_g k) e4))
             | (True, e4) \<Rightarrow> (Inr (), e4)))))
      | _ \<Rightarrow> (Inl BAD_FUNC_ARG, e))"

section \<open>Observing a call\<close>

text \<open>The engine calls made between two states of the same run.\<close>

definition new_events :: "engine \<Rightarrow> engine \<Rightarrow> event list" where
  "new_events e e1 = drop (length (trace e)) (trace e1)"

fun is_exptmod :: "event \<Rightarrow> bool" where
  "is_exptmod (E_exptmod g x p y) = True"
| "is_exptmod ev = False"

fun event_handles :: "event \<Rightarrow> handle list" where
  "event_handles (E_init hs) = hs"
| "event_handles (E_clear h) = [h]"
| "event_handles (E_read h bs) = [h]"
| "event_handles (E_copy a b) = [a, b]"
| "event_handles (E_sub_d a d c) = [a, c]"
| "event_handles (E_exptmod g x p y) = [g, x, p, y]"
| "event_handles (E_to_bin h) = [h]"

definition uses_handle :: "handle \<Rightarrow> event \<Rightarrow> bool" where
  "uses_handle h ev = (h \<in> set (event_handles ev))"

section \<open>Concrete engines and sources\<close>

text \<open>
  An engine on which nothing has happened and no call will fail, and the engine after
  \<^verbatim>\<open>wc_DhSetKey\<close> has loaded the buffers \<open>p\<close> and \<open>g\<close> into the key object at 0.
\<close>

definition fresh_engine :: engine where
  "fresh_engine = \<lparr>faults = [], live = {}, vals = (\<lambda>h. 0), trace = []\<rparr>"

definition ready_engine :: "byte list \<Rightarrow> byte list \<Rightarrow> engine" where
  "ready_engine p g = snd (wc_DhSetKey (Some 0) (Some p) (Some g) fresh_engine)"

text \<open>A random source that succeeds and delivers the byte \<open>b\<close> only.\<close>

definition constant_rng :: "byte \<Rightarrow> WC_RNG" where
  "constant_rng b = \<lparr>rng_ret = 0, rng_bytes = (\<lambda>i. b)\<rparr>"

text \<open>A work-factor estimate that is \<open>w\<close> for every size.\<close>

definition constant_estimate :: "word32 \<Rightarrow> word32 \<Rightarrow> word32" where
  "constant_estimate w n = w"

section \<open>Facts about the engine\<close>

lemmas engine_defs =
  mp_init_def mp_init_multi_def mp_read_unsigned_bin_def mp_to_unsigned_bin_def
  mp_copy_def mp_sub_d_def mp_exptmod_def mp_clear_def engine_call_def

lemmas compare_defs = mp_cmp_d_def mp_cmp_def cmp_int_def

subsection \<open>Encoding and decoding\<close>

lemma to_unsigned_bin_0 [simp]: "to_unsigned_bin 0 = []"
  by (subst to_unsigned_bin.simps) simp

lemma to_unsigned_bin_pos:
  "0 < n \<Longrightarrow> to_unsigned_bin n = to_unsigned_bin (n div 256) @ [of_nat (n mod 256)]"
  by (subst to_unsigned_bin.simps) simp

lemma to_unsigned_bin_numeral [simp]:
  "to_unsigned_bin (numeral n) =
     to_unsigned_bin (numeral n div 256) @ [of_nat (numeral n mod 256)]"
  by (rule to_unsigned_bin_pos) simp

lemma to_unsigned_bin_1 [simp]: "to_unsigned_bin (Suc 0) = [1]"
  by (simp add: to_unsigned_bin_pos)

lemma read_unsigned_bin_snoc:
  "read_unsigned_bin (bs @ [b]) = read_unsigned_bin bs * 256 + unat b"
  by (simp add: read_unsigned_bin_def)

text \<open>Decoding a minimal encoding gives the number back.\<close>

lemma read_to_unsigned_bin: "read_unsigned_bin (to_unsigned_bin n) = n"
proof (induction n rule: to_unsigned_bin.induct)
  case (1 n)
  show ?case
  proof (cases "n = 0")
    case True
    then show ?thesis
      by (simp add: read_unsigned_bin_def)
  next
    case False
    have low: "unat (of_nat (n mod 256) :: byte) = n mod 256"
      by (simp add: unat_of_nat)
    from False 1 low show ?thesis
      by (simp add: to_unsigned_bin_pos read_unsigned_bin_snoc)
  qed
qed

subsection \<open>What each engine call records\<close>

lemma trace_engine_call:
  "(\<And>s. trace (upd s) = trace s) \<Longrightarrow>
   trace (snd (engine_call ev bad upd e)) = trace e @ [ev]"
  by (simp add: engine_call_def Let_def)

lemma trace_ops [simp]:
  "trace (snd (mp_init h e)) = trace e @ [E_init [h]]"
  "trace (snd (mp_init_multi hs e)) = trace e @ [E_init hs]"
  "trace (snd (mp_read_unsigned_bin h bs e)) = trace e @ [E_read h bs]"
  "trace (snd (mp_copy a b e)) = trace e @ [E_copy a b]"
  "trace (snd (mp_sub_d a d c e)) = trace e @ [E_sub_d a d c]"
  "trace (snd (mp_exptmod g x p y e)) = trace e @ [E_exptmod g x p y]"
  "trace (snd (mp_to_unsigned_bin h e)) = trace e @ [E_to_bin h]"
  "trace (mp_clear h e) = trace e @ [E_clear h]"
  by (simp_all add: mp_init_def mp_init_multi_def mp_read_unsigned_bin_def mp_copy_def
      mp_sub_d_def mp_exptmod_def mp_to_unsigned_bin_def mp_clear_def trace_engine_call
      case_prod_beta)

lemma trace_guarded [simp]:
  "trace (snd (guarded ret op code e)) = (if ret = None then trace (snd (op e)) else trace e)"
  by (simp add: guarded_def case_prod_beta split: option.splits)

subsection \<open>Which handles each engine call leaves allocated\<close>

lemma live_engine_call:
  "(\<And>s. live (upd s) = live s) \<Longrightarrow> live (snd (engine_call ev bad upd e)) = live e"
  by (simp add: engine_call_def Let_def)

lemma live_ops [simp]:
  "live (snd (mp_read_unsigned_bin h bs e)) = live e"
  "live (snd (mp_copy a b e)) = live e"
  "live (snd (mp_sub_d a d c e)) = live e"
  "live (snd (mp_exptmod g x p y e)) = live e"
  "live (snd (mp_to_unsigned_bin h e)) = live e"
  "live (mp_clear h e) = live e - {h}"
  by (simp_all add: mp_read_unsigned_bin_def mp_copy_def
      mp_sub_d_def mp_exptmod_def mp_to_unsigned_bin_def mp_clear_def live_engine_call
      case_prod_beta)

lemma live_inits [simp]:
  "live (snd (mp_init h e)) = (if fst (mp_init h e) then insert h (live e) else live e)"
  "live (snd (mp_init_multi hs e)) =
     (if fst (mp_init_multi hs e) then set hs \<union> live e else live e)"
  by (simp_all add: mp_init_def mp_init_multi_def engine_call_def Let_def)

lemma live_guarded [simp]:
  "live (snd (guarded ret op code e)) = (if ret = None then live (snd (op e)) else live e)"
  by (simp add: guarded_def case_prod_beta split: option.splits)

subsection \<open>The engine after loading a key\<close>

lemma ready_engine_faults: "p \<noteq> [] \<Longrightarrow> g \<noteq> [] \<Longrightarrow> faults (ready_engine p g) = []"
  by (simp add: ready_engine_def fresh_engine_def wc_DhSetKey_def engine_defs Let_def)

lemma ready_engine_p:
  "p \<noteq> [] \<Longrightarrow> g \<noteq> [] \<Longrightarrow>
   vals (ready_engine p g) (Key_p 0) = int (read_unsigned_bin (skip_leading_zero p))"
  by (simp add: ready_engine_def fresh_engine_def wc_DhSetKey_def engine_defs Let_def)

lemma ready_engine_g:
  "p \<noteq> [] \<Longrightarrow> g \<noteq> [] \<Longrightarrow>
   vals (ready_engine p g) (Key_g 0) = int (read_unsigned_bin (skip_leading_zero g))"
  by (simp add: ready_engine_def fresh_engine_def wc_DhSetKey_def engine_defs Let_def)

lemma ready_engine_live:
  "p \<noteq> [] \<Longrightarrow> g \<noteq> [] \<Longrightarrow> live (ready_engine p g) = {Key_p 0, Key_g 0}"
  by (auto simp add: ready_engine_def fresh_engine_def wc_DhSetKey_def engine_defs Let_def)

lemmas ready_engine_simps =
  ready_engine_faults ready_engine_p ready_engine_g ready_engine_live
  skip_leading_zero_def read_unsigned_bin_def

section \<open>Facts about \<^verbatim>\<open>dh.c\<close>\<close>

subsection \<open>Runs on which the engine reports no failure\<close>

lemma wc_DhCheckPubKey_nofault:
  assumes "faults e = []" and "vals e (Key_p k) = p" and "x = int (read_unsigned_bin pub)"
  shows "fst (wc_DhCheckPubKey (Some k) (Some pub) e) =
           (if x < 2 \<or> p - 2 < x then Inl MP_CMP_E else Inr ())"
  using assms
  by (simp add: wc_DhCheckPubKey_def guarded_def engine_defs Let_def result_def compare_defs)

lemma GeneratePublic_nofault:
  assumes "faults e = []" and "0 < vals e (Key_p k)"
  shows "fst (GeneratePublic k priv e) =
           Inr (to_unsigned_bin
                  (nat (vals e (Key_g k) ^ read_unsigned_bin priv mod vals e (Key_p k))))"
  using assms
  by (simp add: GeneratePublic_def guarded_def engine_defs Let_def result_def
      mp_unsigned_bin_size_def)

lemma GeneratePublic_keeps_faults:
  "faults e = [] \<Longrightarrow> faults (snd (GeneratePublic k priv e)) = []"
  by (auto simp: GeneratePublic_def guarded_def engine_defs Let_def result_def
      split: option.splits list.splits prod.splits if_splits bool.splits)

lemma GeneratePublic_keeps_key:
  "vals (snd (GeneratePublic k priv e)) (Key_p k') = vals e (Key_p k')"
  "vals (snd (GeneratePublic k priv e)) (Key_g k') = vals e (Key_g k')"
  by (auto simp: GeneratePublic_def guarded_def engine_defs Let_def result_def
      split: option.splits list.splits prod.splits if_splits bool.splits)

lemma wc_DhAgree_nofault:
  assumes "faults e = []" and "vals e (Key_p k) = p"
      and "2 \<le> int (read_unsigned_bin pub)" and "int (read_unsigned_bin pub) \<le> p - 2"
  shows "fst (wc_DhAgree (Some k) priv (Some pub) e) =
           Inr (to_unsigned_bin
                  (nat (int (read_unsigned_bin pub) ^ read_unsigned_bin priv mod p)))"
  using assms
  by (simp add: wc_DhAgree_def wc_DhCheckPubKey_def guarded_def engine_defs Let_def result_def
      mp_unsigned_bin_size_def compare_defs)

lemma power_mod_swap:
  fixes g p :: int
  shows "(g ^ a mod p) ^ b mod p = g ^ (a * b) mod p"
  by (simp add: power_mod power_mult)

subsection \<open>A failed check ends \<^verbatim>\<open>wc_DhAgree\<close>\<close>

text \<open>A check that succeeds was given a key and a buffer.\<close>

lemma wc_DhCheckPubKey_Inr_present:
  "fst (wc_DhCheckPubKey key pub e) = Inr u \<Longrightarrow> key \<noteq> None \<and> pub \<noteq> None"
  by (auto simp add: wc_DhCheckPubKey_def split: option.splits)

lemma wc_DhAgree_check_failed:
  "fst (wc_DhCheckPubKey key pub e) = Inl err \<Longrightarrow>
   wc_DhAgree key priv pub e = (Inl DH_CHECK_PUB_E, snd (wc_DhCheckPubKey key pub e))"
  by (cases "wc_DhCheckPubKey key pub e") (simp add: wc_DhAgree_def)

lemma wc_DhCheckPubKey_trace:
  "\<exists>evs. trace (snd (wc_DhCheckPubKey key pub e)) = trace e @ evs
         \<and> filter is_exptmod evs = []
         \<and> filter (uses_handle Agree_y) evs = []"
  by (auto simp: wc_DhCheckPubKey_def case_prod_beta Let_def uses_handle_def
      split: option.splits bool.splits)

lemma wc_DhCheckPubKey_new_events:
  "filter is_exptmod (new_events e (snd (wc_DhCheckPubKey key pub e))) = []"
  "filter (uses_handle Agree_y) (new_events e (snd (wc_DhCheckPubKey key pub e))) = []"
  using wc_DhCheckPubKey_trace [of key pub e]
  by (auto simp: new_events_def)

lemma wc_DhAgree_after_check:
  "\<exists>rest. trace (snd (wc_DhAgree key priv pub e))
            = trace (snd (wc_DhCheckPubKey key pub e)) @ rest"
  by (auto simp: wc_DhAgree_def case_prod_beta
      split: option.splits bool.splits sum.splits)

subsection \<open>Handles left allocated\<close>

lemma GeneratePublic_live:
  "GenPub_x \<notin> live e \<Longrightarrow> GenPub_y \<notin> live e \<Longrightarrow>
   live (snd (GeneratePublic k priv e)) = live e"
  by (auto simp add: GeneratePublic_def case_prod_beta split: bool.splits option.splits)

lemma wc_DhCheckPubKey_live:
  "Check_x \<notin> live e \<Longrightarrow> Check_y \<notin> live e \<Longrightarrow>
   live (snd (wc_DhCheckPubKey key pub e)) = live e"
  by (auto simp add: wc_DhCheckPubKey_def case_prod_beta Let_def
      split: bool.splits option.splits)

lemma wc_DhAgree_live:
  assumes "Check_x \<notin> live e" "Check_y \<notin> live e"
      and "Agree_x \<notin> live e" "Agree_y \<notin> live e" "Agree_z \<notin> live e"
  shows "live (snd (wc_DhAgree key priv pub e)) = live e"
proof -
  have "live (snd (wc_DhCheckPubKey key pub e)) = live e"
    using assms by (simp add: wc_DhCheckPubKey_live)
  with assms show ?thesis
    by (auto simp add: wc_DhAgree_def case_prod_beta
      split: bool.splits option.splits sum.splits)
qed

section \<open>The public-key check\<close>

text \<open>
  Claim C1, as the code has it. Let \<open>p\<close> be the modulus of the key and \<open>x\<close> the number
  the candidate buffer decodes to. \<^verbatim>\<open>wc_DhCheckPubKey\<close> returns an error whenever
  \<open>x < 2\<close> or \<open>x > p - 2\<close>, whatever the engine does. When no engine call fails it returns
  \<^verbatim>\<open>MP_CMP_E\<close> in that case and success otherwise; so it rejects 0, 1, \<open>p - 1\<close> and \<open>p\<close>,
  and it accepts 2 and \<open>p - 2\<close> provided \<open>p \<ge> 4\<close>.
\<close>

theorem wc_DhCheckPubKey_range:
  assumes "vals e (Key_p k) = p" and "x = int (read_unsigned_bin pub)"
  shows "(x < 2 \<or> p - 2 < x \<longrightarrow>
            (\<exists>err. fst (wc_DhCheckPubKey (Some k) (Some pub) e) = Inl err))
       \<and> (faults e = [] \<longrightarrow>
            fst (wc_DhCheckPubKey (Some k) (Some pub) e) =
              (if x < 2 \<or> p - 2 < x then Inl MP_CMP_E else Inr ()))
       \<and> (faults e = [] \<and> (x = 0 \<or> x = 1 \<or> x = p - 1 \<or> x = p) \<longrightarrow>
            fst (wc_DhCheckPubKey (Some k) (Some pub) e) = Inl MP_CMP_E)
       \<and> (faults e = [] \<and> 4 \<le> p \<and> (x = 2 \<or> x = p - 2) \<longrightarrow>
            fst (wc_DhCheckPubKey (Some k) (Some pub) e) = Inr ())"
proof -
  have reject: "\<exists>err. fst (wc_DhCheckPubKey (Some k) (Some pub) e) = Inl err"
    if "x < 2 \<or> p - 2 < x"
    using assms that
    by (auto simp: wc_DhCheckPubKey_def guarded_def engine_defs Let_def result_def compare_defs
        split: list.splits prod.splits if_splits bool.splits)
  have decide: "fst (wc_DhCheckPubKey (Some k) (Some pub) e) =
                  (if x < 2 \<or> p - 2 < x then Inl MP_CMP_E else Inr ())"
    if "faults e = []"
    using assms that by (simp add: wc_DhCheckPubKey_nofault)
  from reject decide show ?thesis
    by auto
qed

theorem wc_DhCheckPubKey_range_witness:
  "vals (ready_engine [0x17] [5]) (Key_p 0) = 23
   \<and> (2::int) = int (read_unsigned_bin [2])
   \<and> faults (ready_engine [0x17] [5]) = []
   \<and> fst (wc_DhCheckPubKey (Some 0) (Some [2]) (ready_engine [0x17] [5])) = Inr ()"
  using wc_DhCheckPubKey_range [of "ready_engine [0x17] [5]" 0 23 2 "[2]"]
  by (simp add: ready_engine_simps)

text \<open>
  With \<open>p = 3\<close> and \<open>g = 2\<close> the candidate 2 is \<open>p - 1\<close>, and the check rejects it: 2 is
  not accepted for every modulus.
\<close>

theorem wc_DhCheckPubKey_accepts_2_counterexample:
  "vals (ready_engine [3] [2]) (Key_p 0) = 3
   \<and> vals (ready_engine [3] [2]) (Key_g 0) = 2
   \<and> faults (ready_engine [3] [2]) = []
   \<and> read_unsigned_bin [2] = 2
   \<and> fst (wc_DhCheckPubKey (Some 0) (Some [2]) (ready_engine [3] [2])) = Inl MP_CMP_E"
  by (simp add: ready_engine_simps wc_DhCheckPubKey_def guarded_def engine_defs Let_def
      result_def compare_defs)

section \<open>Symmetry of the agreement\<close>

text \<open>
  Claim C2, as the code has it. Two parties hold the same \<open>p\<close> and \<open>g\<close>, their engines
  report no failure, and their private buffers decode to \<open>a\<close> and \<open>b\<close>. If both public
  values \<open>g ^ a mod p\<close> and \<open>g ^ b mod p\<close> lie in \<open>[2, p - 2]\<close>, then
  \<^verbatim>\<open>GeneratePublic\<close> succeeds for both, and each party's \<^verbatim>\<open>wc_DhAgree\<close> on the other's
  public buffer succeeds with the minimal encoding of \<open>g ^ (a * b) mod p\<close>.
\<close>

theorem wc_DhAgree_symmetric:
  fixes p g :: int
  assumes eA: "faults eA = []" "vals eA (Key_p kA) = p" "vals eA (Key_g kA) = g"
      and eB: "faults eB = []" "vals eB (Key_p kB) = p" "vals eB (Key_g kB) = g"
      and a: "a = read_unsigned_bin privA" and b: "b = read_unsigned_bin privB"
      and A: "2 \<le> g ^ a mod p" "g ^ a mod p \<le> p - 2"
      and B: "2 \<le> g ^ b mod p" "g ^ b mod p \<le> p - 2"
  shows "\<exists>pubA eA1 pubB eB1.
           GeneratePublic kA privA eA = (Inr pubA, eA1)
         \<and> GeneratePublic kB privB eB = (Inr pubB, eB1)
         \<and> pubA = to_unsigned_bin (nat (g ^ a mod p))
         \<and> pubB = to_unsigned_bin (nat (g ^ b mod p))
         \<and> fst (wc_DhAgree (Some kA) privA (Some pubB) eA1)
             = Inr (to_unsigned_bin (nat (g ^ (a * b) mod p)))
         \<and> fst (wc_DhAgree (Some kB) privB (Some pubA) eB1)
             = Inr (to_unsigned_bin (nat (g ^ (a * b) mod p)))"
proof -
  from A have p: "0 < p" by simp
  define pubA where "pubA = to_unsigned_bin (nat (g ^ a mod p))"
  define pubB where "pubB = to_unsigned_bin (nat (g ^ b mod p))"
  define eA1 where "eA1 = snd (GeneratePublic kA privA eA)"
  define eB1 where "eB1 = snd (GeneratePublic kB privB eB)"
  have genA: "GeneratePublic kA privA eA = (Inr pubA, eA1)"
    using GeneratePublic_nofault [of eA kA privA] eA p a
    by (simp add: pubA_def eA1_def prod_eq_iff)
  have genB: "GeneratePublic kB privB eB = (Inr pubB, eB1)"
    using GeneratePublic_nofault [of eB kB privB] eB p b
    by (simp add: pubB_def eB1_def prod_eq_iff)
  have rA: "int (read_unsigned_bin pubA) = g ^ a mod p"
    using p by (simp add: pubA_def read_to_unsigned_bin)
  have rB: "int (read_unsigned_bin pubB) = g ^ b mod p"
    using p by (simp add: pubB_def read_to_unsigned_bin)
  have eA1: "faults eA1 = []" "vals eA1 (Key_p kA) = p"
    using eA by (simp_all add: eA1_def GeneratePublic_keeps_faults GeneratePublic_keeps_key)
  have eB1: "faults eB1 = []" "vals eB1 (Key_p kB) = p"
    using eB by (simp_all add: eB1_def GeneratePublic_keeps_faults GeneratePublic_keeps_key)
  have agreeA: "fst (wc_DhAgree (Some kA) privA (Some pubB) eA1)
                  = Inr (to_unsigned_bin (nat (g ^ (a * b) mod p)))"
    using wc_DhAgree_nofault [of eA1 kA p pubB privA] eA1 B rB a
    by (simp add: power_mod_swap mult.commute)
  have agreeB: "fst (wc_DhAgree (Some kB) privB (Some pubA) eB1)
                  = Inr (to_unsigned_bin (nat (g ^ (a * b) mod p)))"
    using wc_DhAgree_nofault [of eB1 kB p pubA privB] eB1 A rA b
    by (simp add: power_mod_swap)
  from genA genB agreeA agreeB show ?thesis
    by (simp add: pubA_def pubB_def)
qed

text \<open>The scenario \<open>p = 23\<close>, \<open>g = 5\<close>, \<open>a = 6\<close>, \<open>b = 15\<close>: both sides obtain 2.\<close>

theorem wc_DhAgree_symmetric_witness:
  "(faults (ready_engine [0x17] [5]) = []
    \<and> vals (ready_engine [0x17] [5]) (Key_p 0) = 23
    \<and> vals (ready_engine [0x17] [5]) (Key_g 0) = 5)
   \<and> ((6::nat) = read_unsigned_bin [6] \<and> (15::nat) = read_unsigned_bin [15])
   \<and> ((2::int) \<le> 5 ^ 6 mod 23 \<and> (5::int) ^ 6 mod 23 \<le> 23 - 2
      \<and> (2::int) \<le> 5 ^ 15 mod 23 \<and> (5::int) ^ 15 mod 23 \<le> 23 - 2)
   \<and> (\<exists>pubA eA1 pubB eB1.
         GeneratePublic 0 [6] (ready_engine [0x17] [5]) = (Inr pubA, eA1)
       \<and> GeneratePublic 0 [15] (ready_engine [0x17] [5]) = (Inr pubB, eB1)
       \<and> pubA = to_unsigned_bin (nat (5 ^ 6 mod 23))
       \<and> pubB = to_unsigned_bin (nat (5 ^ 15 mod 23))
       \<and> fst (wc_DhAgree (Some 0) [6] (Some pubB) eA1)
           = Inr (to_unsigned_bin (nat (5 ^ (6 * 15) mod 23)))
       \<and> fst (wc_DhAgree (Some 0) [15] (Some pubA) eB1)
           = Inr (to_unsigned_bin (nat (5 ^ (6 * 15) mod 23))))
   \<and> (to_unsigned_bin (nat (5 ^ 6 mod 23)) = [8]
      \<and> to_unsigned_bin (nat (5 ^ 15 mod 23)) = [19]
      \<and> to_unsigned_bin (nat (5 ^ (6 * 15) mod 23)) = [2])"
proof -
  have ready: "faults (ready_engine [0x17] [5]) = []"
    "vals (ready_engine [0x17] [5]) (Key_p 0) = 23"
    "vals (ready_engine [0x17] [5]) (Key_g 0) = 5"
    by (simp_all add: ready_engine_simps)
  have privs: "(6::nat) = read_unsigned_bin [6]" "(15::nat) = read_unsigned_bin [15]"
    by (simp_all add: read_unsigned_bin_def)
  have pubs: "(2::int) \<le> 5 ^ 6 mod 23" "(5::int) ^ 6 mod 23 \<le> 23 - 2"
    "(2::int) \<le> 5 ^ 15 mod 23" "(5::int) ^ 15 mod 23 \<le> 23 - 2"
    by simp_all
  have encodings: "to_unsigned_bin (nat (5 ^ 6 mod 23)) = [8]"
    "to_unsigned_bin (nat (5 ^ 15 mod 23)) = [19]"
    "to_unsigned_bin (nat (5 ^ (6 * 15) mod 23)) = [2]"
    by simp_all
  note agreed = wc_DhAgree_symmetric [where p = 23 and g = 5, OF ready ready privs pubs]
  show ?thesis
    by (intro conjI ready privs pubs encodings agreed)
qed

text \<open>
  The private byte \<^verbatim>\<open>0x2C\<close> has the bits \<^verbatim>\<open>0x0C\<close> set, and \<open>5 ^ 44 mod 23 = 1\<close>: the
  public value it yields is rejected by the peer's check, so the peer's agreement fails
  while the other side's succeeds.
\<close>

theorem wc_DhAgree_symmetric_counterexample:
  "fst (GeneratePublic 0 [0x2C] (ready_engine [0x17] [5])) = Inr [1]
   \<and> fst (GeneratePublic 0 [6] (ready_engine [0x17] [5])) = Inr [8]
   \<and> fst (wc_DhAgree (Some 0) [6] (Some [1]) (ready_engine [0x17] [5])) = Inl DH_CHECK_PUB_E
   \<and> fst (wc_DhAgree (Some 0) [0x2C] (Some [8]) (ready_engine [0x17] [5])) = Inr [1]"
proof -
  have ready: "faults (ready_engine [0x17] [5]) = []"
    "vals (ready_engine [0x17] [5]) (Key_p 0) = 23"
    "vals (ready_engine [0x17] [5]) (Key_g 0) = 5"
    by (simp_all add: ready_engine_simps)
  have "fst (GeneratePublic 0 [0x2C] (ready_engine [0x17] [5])) = Inr [1]"
    using ready by (simp add: GeneratePublic_nofault read_unsigned_bin_def)
  moreover have "fst (GeneratePublic 0 [6] (ready_engine [0x17] [5])) = Inr [8]"
    using ready by (simp add: GeneratePublic_nofault read_unsigned_bin_def)
  moreover have "fst (wc_DhCheckPubKey (Some 0) (Some [1]) (ready_engine [0x17] [5]))
                   = Inl MP_CMP_E"
    using ready
    by (simp add: wc_DhCheckPubKey_nofault [where p = 23 and x = 1] read_unsigned_bin_def)
  then have "fst (wc_DhAgree (Some 0) [6] (Some [1]) (ready_engine [0x17] [5]))
               = Inl DH_CHECK_PUB_E"
    by (simp add: wc_DhAgree_check_failed)
  moreover have "fst (wc_DhAgree (Some 0) [0x2C] (Some [8]) (ready_engine [0x17] [5]))
                   = Inr [1]"
    using ready
    by (simp add: wc_DhAgree_nofault [where p = 23] read_unsigned_bin_def)
  ultimately show ?thesis
    by simp
qed

section \<open>The check comes first in \<^verbatim>\<open>wc_DhAgree\<close>\<close>

text \<open>
  Claim C3. Whenever \<^verbatim>\<open>wc_DhCheckPubKey\<close> fails on the peer buffer, \<^verbatim>\<open>wc_DhAgree\<close>
  returns \<^verbatim>\<open>DH_CHECK_PUB_E\<close> in the engine state the check left: it makes no engine
  call of its own. The calls of the check contain no modular exponentiation and never
  touch \<^verbatim>\<open>wc_DhAgree\<close>'s handle \<^verbatim>\<open>y\<close>, into which the peer value is decoded for the
  exponentiation. In every run the calls of \<^verbatim>\<open>wc_DhAgree\<close> begin with those of the
  check.
\<close>

theorem wc_DhAgree_check_first:
  "((\<exists>err. fst (wc_DhCheckPubKey key pub e) = Inl err) \<longrightarrow>
      wc_DhAgree key priv pub e = (Inl DH_CHECK_PUB_E, snd (wc_DhCheckPubKey key pub e)))
   \<and> filter is_exptmod (new_events e (snd (wc_DhCheckPubKey key pub e))) = []
   \<and> filter (uses_handle Agree_y) (new_events e (snd (wc_DhCheckPubKey key pub e))) = []
   \<and> (\<exists>rest. trace (snd (wc_DhAgree key priv pub e))
               = trace (snd (wc_DhCheckPubKey key pub e)) @ rest)"
  using wc_DhAgree_check_failed [of key pub e _ priv]
    wc_DhCheckPubKey_new_events [of e key pub] wc_DhAgree_after_check [of key priv pub e]
  by blast

theorem wc_DhAgree_check_first_witness:
  "fst (wc_DhCheckPubKey (Some 0) (Some [1]) (ready_engine [0x17] [5])) = Inl MP_CMP_E
   \<and> wc_DhAgree (Some 0) [6] (Some [1]) (ready_engine [0x17] [5])
       = (Inl DH_CHECK_PUB_E,
          snd (wc_DhCheckPubKey (Some 0) (Some [1]) (ready_engine [0x17] [5])))
   \<and> new_events (ready_engine [0x17] [5])
        (snd (wc_DhCheckPubKey (Some 0) (Some [1]) (ready_engine [0x17] [5])))
      = [E_init [Check_x, Check_y], E_read Check_x [1], E_clear Check_y, E_clear Check_x]"
proof -
  have ready: "faults (ready_engine [0x17] [5]) = []"
    "vals (ready_engine [0x17] [5]) (Key_p 0) = 23"
    by (simp_all add: ready_engine_simps)
  have rejected:
    "fst (wc_DhCheckPubKey (Some 0) (Some [1]) (ready_engine [0x17] [5])) = Inl MP_CMP_E"
    using ready
    by (simp add: wc_DhCheckPubKey_nofault [where p = 23 and x = 1] read_unsigned_bin_def)
  have events: "new_events (ready_engine [0x17] [5])
        (snd (wc_DhCheckPubKey (Some 0) (Some [1]) (ready_engine [0x17] [5])))
      = [E_init [Check_x, Check_y], E_read Check_x [1], E_clear Check_y, E_clear Check_x]"
    using ready
    by (simp add: wc_DhCheckPubKey_def case_prod_beta new_events_def
        guarded_def engine_defs Let_def compare_defs read_unsigned_bin_def)
  from rejected
    wc_DhAgree_check_first [of "Some 0" "Some [1]" "ready_engine [0x17] [5]" "[6]"]
  have "wc_DhAgree (Some 0) [6] (Some [1]) (ready_engine [0x17] [5])
       = (Inl DH_CHECK_PUB_E,
          snd (wc_DhCheckPubKey (Some 0) (Some [1]) (ready_engine [0x17] [5])))"
    by blast
  with rejected events show ?thesis
    by (intro conjI)
qed

section \<open>One error code for every failed check\<close>

text \<open>
  Claim C10. Whatever error \<^verbatim>\<open>wc_DhCheckPubKey\<close> returns, \<^verbatim>\<open>wc_DhAgree\<close> returns
  \<^verbatim>\<open>DH_CHECK_PUB_E\<close>. The check returns \<^verbatim>\<open>MP_INIT_E\<close> when the initialisation of its
  handles fails, \<^verbatim>\<open>MP_READ_E\<close> when the decoding of the peer buffer fails and
  \<^verbatim>\<open>MP_CMP_E\<close> on a range violation; these three are one code at \<^verbatim>\<open>wc_DhAgree\<close>.
\<close>

theorem wc_DhAgree_one_code:
  "((\<exists>err. fst (wc_DhCheckPubKey key pub e) = Inl err) \<longrightarrow>
      fst (wc_DhAgree key priv pub e) = Inl DH_CHECK_PUB_E)
   \<and> (faults e = True # fs \<longrightarrow>
        fst (wc_DhCheckPubKey (Some k) (Some pb) e) = Inl MP_INIT_E
      \<and> fst (wc_DhAgree (Some k) priv (Some pb) e) = Inl DH_CHECK_PUB_E)
   \<and> (faults e = False # True # fs \<longrightarrow>
        fst (wc_DhCheckPubKey (Some k) (Some pb) e) = Inl MP_READ_E
      \<and> fst (wc_DhAgree (Some k) priv (Some pb) e) = Inl DH_CHECK_PUB_E)
   \<and> (faults e = [] \<and> (int (read_unsigned_bin pb) < 2
                         \<or> vals e (Key_p k) - 2 < int (read_unsigned_bin pb)) \<longrightarrow>
        fst (wc_DhCheckPubKey (Some k) (Some pb) e) = Inl MP_CMP_E
      \<and> fst (wc_DhAgree (Some k) priv (Some pb) e) = Inl DH_CHECK_PUB_E)"
proof -
  have collapse: "fst (wc_DhAgree key priv pub e) = Inl DH_CHECK_PUB_E"
    if "fst (wc_DhCheckPubKey key pub e) = Inl err" for key pub err
    using that by (simp add: wc_DhAgree_check_failed)
  have init: "fst (wc_DhCheckPubKey (Some k) (Some pb) e) = Inl MP_INIT_E"
    if "faults e = True # fs"
    using that by (simp add: wc_DhCheckPubKey_def engine_defs Let_def)
  have decode: "fst (wc_DhCheckPubKey (Some k) (Some pb) e) = Inl MP_READ_E"
    if "faults e = False # True # fs"
    using that
    by (simp add: wc_DhCheckPubKey_def guarded_def engine_defs Let_def result_def)
  have range: "fst (wc_DhCheckPubKey (Some k) (Some pb) e) = Inl MP_CMP_E"
    if "faults e = []"
      and "int (read_unsigned_bin pb) < 2 \<or> vals e (Key_p k) - 2 < int (read_unsigned_bin pb)"
    using that by (auto simp add: wc_DhCheckPubKey_nofault)
  from collapse init decode range show ?thesis
    by blast
qed

text \<open>
  The peer buffer \<open>[8]\<close> is in range for \<open>p = 23\<close>. A failed initialisation, a failed
  decoding, and the out-of-range buffer \<open>[1]\<close> give three different codes at the check
  and one at the agreement.
\<close>

theorem wc_DhAgree_one_code_witness:
  "(fst (wc_DhCheckPubKey (Some 0) (Some [8]) ((ready_engine [0x17] [5])\<lparr>faults := [True]\<rparr>))
      = Inl MP_INIT_E
    \<and> fst (wc_DhAgree (Some 0) [6] (Some [8]) ((ready_engine [0x17] [5])\<lparr>faults := [True]\<rparr>))
      = Inl DH_CHECK_PUB_E)
   \<and> (fst (wc_DhCheckPubKey (Some 0) (Some [8])
             ((ready_engine [0x17] [5])\<lparr>faults := [False, True]\<rparr>))
      = Inl MP_READ_E
    \<and> fst (wc_DhAgree (Some 0) [6] (Some [8])
             ((ready_engine [0x17] [5])\<lparr>faults := [False, True]\<rparr>))
      = Inl DH_CHECK_PUB_E)
   \<and> (fst (wc_DhCheckPubKey (Some 0) (Some [1]) (ready_engine [0x17] [5])) = Inl MP_CMP_E
    \<and> fst (wc_DhAgree (Some 0) [6] (Some [1]) (ready_engine [0x17] [5]))
      = Inl DH_CHECK_PUB_E)"
proof -
  have ready: "faults (ready_engine [0x17] [5]) = []"
    "vals (ready_engine [0x17] [5]) (Key_p 0) = 23"
    by (simp_all add: ready_engine_simps)
  have small: "int (read_unsigned_bin [1]) < 2"
    by (simp add: read_unsigned_bin_def)
  have f1: "faults ((ready_engine [0x17] [5])\<lparr>faults := [True]\<rparr>) = True # []"
    by simp
  have f2: "faults ((ready_engine [0x17] [5])\<lparr>faults := [False, True]\<rparr>) = False # True # []"
    by simp
  from wc_DhAgree_one_code [of "Some 0" "Some [8]"
      "(ready_engine [0x17] [5])\<lparr>faults := [True]\<rparr>" "[6]" "[]" 0 "[8]"] f1
  have a: "fst (wc_DhCheckPubKey (Some 0) (Some [8])
                  ((ready_engine [0x17] [5])\<lparr>faults := [True]\<rparr>)) = Inl MP_INIT_E
    \<and> fst (wc_DhAgree (Some 0) [6] (Some [8]) ((ready_engine [0x17] [5])\<lparr>faults := [True]\<rparr>))
      = Inl DH_CHECK_PUB_E"
    by blast
  from wc_DhAgree_one_code [of "Some 0" "Some [8]"
      "(ready_engine [0x17] [5])\<lparr>faults := [False, True]\<rparr>" "[6]" "[]" 0 "[8]"] f2
  have b: "fst (wc_DhCheckPubKey (Some 0) (Some [8])
             ((ready_engine [0x17] [5])\<lparr>faults := [False, True]\<rparr>)) = Inl MP_READ_E
    \<and> fst (wc_DhAgree (Some 0) [6] (Some [8])
             ((ready_engine [0x17] [5])\<lparr>faults := [False, True]\<rparr>)) = Inl DH_CHECK_PUB_E"
    by blast
  from wc_DhAgree_one_code [of "Some 0" "Some [1]" "ready_engine [0x17] [5]" "[6]" "[]" 0 "[1]"]
    ready small
  have c: "fst (wc_DhCheckPubKey (Some 0) (Some [1]) (ready_engine [0x17] [5])) = Inl MP_CMP_E
    \<and> fst (wc_DhAgree (Some 0) [6] (Some [1]) (ready_engine [0x17] [5]))
      = Inl DH_CHECK_PUB_E"
    by blast
  from a b c show ?thesis
    by (intro conjI) blast+
qed

section \<open>No handle outlives its function\<close>

text \<open>
  Claim C8. The local handles of \<^verbatim>\<open>GeneratePublic\<close>, \<^verbatim>\<open>wc_DhCheckPubKey\<close> and
  \<^verbatim>\<open>wc_DhAgree\<close> are not allocated when the function is entered. For every input and
  every schedule of engine failures, the set of allocated handles after the call is the
  set before it: each handle the function initialised has been released, on the
  successful path and on every failing one.
\<close>

theorem local_handles_released:
  "(GenPub_x \<notin> live e \<and> GenPub_y \<notin> live e \<longrightarrow>
      live (snd (GeneratePublic k priv e)) = live e)
   \<and> (Check_x \<notin> live e \<and> Check_y \<notin> live e \<longrightarrow>
      live (snd (wc_DhCheckPubKey key pub e)) = live e)
   \<and> (Check_x \<notin> live e \<and> Check_y \<notin> live e
       \<and> Agree_x \<notin> live e \<and> Agree_y \<notin> live e \<and> Agree_z \<notin> live e \<longrightarrow>
      live (snd (wc_DhAgree key priv pub e)) = live e)"
  by (simp add: GeneratePublic_live wc_DhCheckPubKey_live wc_DhAgree_live)

theorem local_handles_released_witness:
  "(GenPub_x \<notin> live (ready_engine [0x17] [5]) \<and> GenPub_y \<notin> live (ready_engine [0x17] [5]))
   \<and> (Check_x \<notin> live (ready_engine [0x17] [5]) \<and> Check_y \<notin> live (ready_engine [0x17] [5]))
   \<and> (Agree_x \<notin> live (ready_engine [0x17] [5]) \<and> Agree_y \<notin> live (ready_engine [0x17] [5])
       \<and> Agree_z \<notin> live (ready_engine [0x17] [5]))
   \<and> live (snd (GeneratePublic 0 [6] (ready_engine [0x17] [5]))) = {Key_p 0, Key_g 0}
   \<and> live (snd (wc_DhCheckPubKey (Some 0) (Some [19]) (ready_engine [0x17] [5])))
       = {Key_p 0, Key_g 0}
   \<and> live (snd (wc_DhAgree (Some 0) [6] (Some [19]) (ready_engine [0x17] [5])))
       = {Key_p 0, Key_g 0}"
  using local_handles_released [of "ready_engine [0x17] [5]" 0 "[6]" "Some 0" "Some [19]"]
  by (simp add: ready_engine_live)

section \<open>The size of the private exponent\<close>

lemma or_and_0C: "((b::byte) OR 0x0C) AND 0x0C = 0x0C"
  by (simp add: bit_eq_iff bit_simps)

lemma length_first_byte:
  "length (case xs of [] \<Rightarrow> [] | b # bs \<Rightarrow> f b # bs) = length xs"
  by (cases xs) simp_all

lemma first_byte_bits:
  "ys = (case xs of [] \<Rightarrow> [] | b # bs \<Rightarrow> (b OR 0x0C) # bs) \<Longrightarrow> ys \<noteq> [] \<Longrightarrow>
   hd ys AND (0x0C::byte) = 0x0C"
  by (cases xs) (simp_all add: or_and_0C)

text \<open>What a successful \<^verbatim>\<open>GeneratePrivate\<close> hands back.\<close>

lemma GeneratePrivate_Inr:
  assumes "GeneratePrivate dh_const fp k rng e = Inr priv"
  shows "\<exists>sz. private_size dh_const fp (of_nat (mp_unsigned_bin_size e (Key_p k))) = Inr sz
              \<and> length priv = unat sz"
    and "priv \<noteq> [] \<Longrightarrow> hd priv AND 0x0C = 0x0C"
proof -
  from assms obtain sz
    where sz: "private_size dh_const fp (of_nat (mp_unsigned_bin_size e (Key_p k))) = Inr sz"
      and priv: "priv = (case map (rng_bytes rng) [0..<unat sz] of
                           [] \<Rightarrow> [] | b # bs \<Rightarrow> (b OR 0x0C) # bs)"
    by (auto simp add: GeneratePrivate_def wc_RNG_GenerateBlock_def
        split: sum.splits if_splits)
  from priv have "length priv = unat sz"
    by (simp add: length_first_byte)
  with sz show "\<exists>sz. private_size dh_const fp (of_nat (mp_unsigned_bin_size e (Key_p k)))
                       = Inr sz \<and> length priv = unat sz"
    by blast
  show "hd priv AND 0x0C = 0x0C" if "priv \<noteq> []"
    using priv that by (rule first_byte_bits)
qed

lemma private_size_heuristic_le:
  "private_size False fp sz = Inr r \<Longrightarrow> r \<le> sz"
  by (auto simp add: private_size_def WOLFSSL_DH_ROUND_def Let_def split: if_splits)

lemma private_size_const_values:
  "private_size True fp sz = Inr r \<Longrightarrow> r \<in> {21, 29, 34, 39, 42, 46, 49, 52}"
  by (auto simp add: private_size_def Let_def split: if_splits)

lemma div8_succ_nonzero: "(x::word32) div 8 + 1 \<noteq> 0"
proof
  assume "x div 8 + 1 = 0"
  then have "x div 8 = - 1"
    by (simp only: eq_neg_iff_add_eq_0)
  also have "(- 1 :: word32) = 0xFFFFFFFF"
    by simp
  finally have "x div 8 = 0xFFFFFFFF" .
  then have "unat (x div 8) = 4294967295"
    by simp
  moreover have "unat (x div 8) = unat x div 8"
    by (simp add: unat_div)
  moreover have "unat x < 2 ^ 32"
    using unsigned_less [of x] by simp
  ultimately show False
    by simp
qed

lemma private_size_heuristic_nonzero:
  "private_size False fp sz = Inr r \<Longrightarrow> sz \<noteq> 0 \<Longrightarrow> r \<noteq> 0"
  by (auto simp add: private_size_def WOLFSSL_DH_ROUND_def Let_def WOLFSSL_BIT_SIZE_def
      min_def div8_succ_nonzero split: if_splits)

lemma mask7_high: "mask 7 AND (0xffffff80::word32) = 0"
  by (simp add: mask_eq_exp_minus_1)

text \<open>A size below 128 that is not 0 is rounded up to 128.\<close>

lemma WOLFSSL_DH_ROUND_small:
  assumes "0 < n" "n < 128"
  shows "WOLFSSL_DH_ROUND True (of_nat n) = 128"
proof -
  define x :: word32 where "x = of_nat n"
  have un: "unat x = n"
    using assms by (simp add: x_def unat_of_nat)
  have "x < 2 ^ 7"
    using assms un by (simp add: word_less_nat_alt)
  then have m: "x AND mask 7 = x"
    by (rule less_mask_eq)
  have "x AND 0xffffff80 = (x AND mask 7) AND 0xffffff80"
    by (simp add: m)
  also have "\<dots> = x AND (mask 7 AND 0xffffff80)"
    by (simp only: and.assoc)
  finally have hi: "x AND 0xffffff80 = 0"
    by (simp add: mask7_high)
  have "unat (x mod 128) = n mod 128"
    by (simp add: unat_mod un)
  with assms have "x mod 128 \<noteq> 0"
    by (auto simp flip: unat_eq_0)
  with hi show ?thesis
    by (simp add: WOLFSSL_DH_ROUND_def x_def [symmetric])
qed

lemma private_size_const_small:
  "0 < n \<Longrightarrow> n < 128 \<Longrightarrow> private_size True fp (of_nat n) = Inr 21"
  by (simp add: private_size_def WOLFSSL_DH_ROUND_small)

lemma length_to_unsigned_bin_power: "length (to_unsigned_bin (256 ^ k)) = Suc k"
proof (induction k)
  case 0
  show ?case by simp
next
  case (Suc k)
  have "to_unsigned_bin (256 ^ Suc k) = to_unsigned_bin (256 ^ k) @ [of_nat 0]"
    using to_unsigned_bin_pos [of "256 ^ Suc k"] by simp
  with Suc show ?case by simp
qed

lemma mp_unsigned_bin_size_power:
  "vals e h = 256 ^ k \<Longrightarrow> mp_unsigned_bin_size e h = Suc k"
  by (simp add: mp_unsigned_bin_size_def nat_power_eq length_to_unsigned_bin_power)

lemma GeneratePrivate_succeeds:
  assumes "rng_ret rng = 0"
      and "private_size dh_const fp (of_nat (mp_unsigned_bin_size e (Key_p k))) = Inr sz"
  shows "\<exists>priv. GeneratePrivate dh_const fp k rng e = Inr priv \<and> length priv = unat sz"
  using assms
  by (simp add: GeneratePrivate_def wc_RNG_GenerateBlock_def length_first_byte)

subsection \<open>Rounding up to a multiple of 128\<close>

lemma high_mask: "(0xffffff80::word32) = NOT (mask 7)"
  by (simp add: mask_eq_exp_minus_1)

lemma and_high: "(x::word32) AND 0xffffff80 = push_bit 7 (drop_bit 7 x)"
  unfolding high_mask
  by (rule bit_eqI) (auto simp add: bit_simps)

lemma unat_and_high: "unat ((x::word32) AND 0xffffff80) = unat x div 128 * 128"
proof -
  have "unat x div 128 * 128 \<le> unat x"
    by simp
  also have "unat x < 2 ^ 32"
    using unsigned_less [of x] by simp
  finally have small: "unat x div 128 * 128 < 2 ^ 32" .
  have "unat (x AND 0xffffff80) = take_bit 32 (push_bit 7 (drop_bit 7 (unat x)))"
    by (simp add: and_high unsigned_push_bit_eq unat_drop_bit_eq)
  also have "\<dots> = (unat x div 128 * 128) mod 2 ^ 32"
    by (simp add: take_bit_eq_mod push_bit_eq_mult drop_bit_eq_div)
  also have "\<dots> = unat x div 128 * 128"
    using small by simp
  finally show ?thesis .
qed

lemma round_up_exact: "(m::nat) mod 128 = 0 \<Longrightarrow> (m + 127) div 128 * 128 = m"
proof -
  assume "m mod 128 = 0"
  then have "128 dvd m"
    by (simp add: dvd_eq_mod_eq_0)
  then obtain q where m: "m = q * 128"
    by auto
  have "(q * 128 + 127) div 128 = q"
    by simp
  with m show ?thesis
    by simp
qed

lemma round_up_inexact:
  "(m::nat) mod 128 \<noteq> 0 \<Longrightarrow> (m + 127) div 128 * 128 = m div 128 * 128 + 128"
proof -
  assume pos: "m mod 128 \<noteq> 0"
  define q t where "q = m div 128" and "t = m mod 128"
  have m: "m = q * 128 + t"
    by (simp add: q_def t_def)
  have t: "0 < t" "t < 128"
    using pos by (simp_all add: t_def)
  have "(t + 127) div 128 = 1"
    using t by (intro div_nat_eqI) simp_all
  moreover have "(q * 128 + (t + 127)) div 128 = q + (t + 127) div 128"
    by simp
  ultimately have "(m + 127) div 128 = q + 1"
    by (simp add: m add.assoc)
  then show ?thesis
    by (simp add: q_def)
qed

text \<open>
  When the rounded size is at least 128 and the addition has not wrapped, it is the next
  multiple of 128 at or above the size.
\<close>

lemma unat_WOLFSSL_DH_ROUND:
  fixes x :: word32
  assumes "128 \<le> WOLFSSL_DH_ROUND True x" and "WOLFSSL_DH_ROUND True x \<le> 1024"
  shows "unat (WOLFSSL_DH_ROUND True x) = (unat x + 127) div 128 * 128"
proof (cases "x mod 128 = 0")
  case True
  then have "unat x mod 128 = 0"
    using unat_mod [of x 128] by simp
  then have "(unat x + 127) div 128 * 128 = unat x"
    by (rule round_up_exact)
  with True show ?thesis
    by (simp add: WOLFSSL_DH_ROUND_def)
next
  case False
  define r where "r = WOLFSSL_DH_ROUND True x"
  from False have r: "r = (x AND 0xffffff80) + 128"
    by (simp add: r_def WOLFSSL_DH_ROUND_def)
  then have "r - 128 = x AND 0xffffff80"
    by simp
  then have "unat (r - 128) = unat x div 128 * 128"
    by (simp only: unat_and_high)
  moreover from assms have "unat (r - 128) = unat r - 128"
    by (simp add: r_def unat_sub)
  moreover from assms have "128 \<le> unat r"
    by (simp add: r_def word_le_nat_alt)
  ultimately have up: "unat r = unat x div 128 * 128 + 128"
    by simp
  from False have "unat (x mod 128) \<noteq> 0"
    by (simp add: unat_eq_0)
  then have "unat x mod 128 \<noteq> 0"
    by (simp add: unat_mod)
  then have "(unat x + 127) div 128 * 128 = unat x div 128 * 128 + 128"
    by (rule round_up_inexact)
  with up show ?thesis
    by (simp add: r_def)
qed

text \<open>
  Under the fixed-table policy the size selected is the entry of the table at the
  number of 128-byte blocks the modulus needs.
\<close>

lemma private_size_const_entry:
  assumes sz: "private_size True fp (of_nat n) = Inr sz" and n: "n < 2 ^ 32"
  shows "(n + 127) div 128 \<in> {1..8}
       \<and> unat sz = [21, 29, 34, 39, 42, 46, 49, 52] ! ((n + 127) div 128 - 1)"
proof -
  define r where "r = WOLFSSL_DH_ROUND True (of_nat n)"
  have un: "unat (of_nat n :: word32) = n"
    using n by (simp add: unat_of_nat)
  from sz have tab: "(r = 128 \<and> sz = 21) \<or> (r = 256 \<and> sz = 29) \<or> (r = 384 \<and> sz = 34)
      \<or> (r = 512 \<and> sz = 39) \<or> (r = 640 \<and> sz = 42) \<or> (r = 768 \<and> sz = 46)
      \<or> (r = 896 \<and> sz = 49) \<or> (r = 1024 \<and> sz = 52)"
    by (auto simp add: private_size_def Let_def r_def split: if_splits)
  then have "128 \<le> r" "r \<le> 1024"
    by auto
  then have "unat r = (n + 127) div 128 * 128"
    using unat_WOLFSSL_DH_ROUND [of "of_nat n"] by (simp add: r_def un)
  with tab show ?thesis
    by auto
qed

text \<open>
  Claim C4, as the code has it. Let \<open>n\<close> be the byte length of the modulus and let
  \<^verbatim>\<open>GeneratePrivate\<close> succeed with the bytes \<open>priv\<close>. Under the heuristic policy
  \<open>length priv \<le> n\<close>. Under the fixed-table policy, for \<open>n < 2 ^ 32\<close>, the length is the
  entry of the table for \<open>n\<close> rounded up to a multiple of 128: the modulus needs between
  one and eight blocks of 128 bytes, and the length is the entry of 21, 29, 34, 39, 42,
  46, 49, 52 at that number of blocks; it is at most \<open>n\<close> when \<open>n \<ge> 21\<close>. When \<open>priv\<close> is
  not empty its first byte has the bits \<^verbatim>\<open>0x0C\<close> set, and it is not empty under the
  fixed-table policy, nor under the heuristic policy for \<open>0 < n < 2 ^ 32\<close>.
\<close>

theorem GeneratePrivate_length_and_bits:
  assumes gen: "GeneratePrivate dh_const fp k rng e = Inr priv"
      and n: "n = mp_unsigned_bin_size e (Key_p k)"
  shows "(\<not> dh_const \<longrightarrow> length priv \<le> n)
       \<and> (dh_const \<longrightarrow> length priv \<in> {21, 29, 34, 39, 42, 46, 49, 52})
       \<and> (dh_const \<and> n < 2 ^ 32 \<longrightarrow>
            (n + 127) div 128 \<in> {1..8}
          \<and> length priv = [21, 29, 34, 39, 42, 46, 49, 52] ! ((n + 127) div 128 - 1))
       \<and> (dh_const \<and> 21 \<le> n \<longrightarrow> length priv \<le> n)
       \<and> (priv \<noteq> [] \<longrightarrow> hd priv AND 0x0C = 0x0C)
       \<and> (dh_const \<or> (0 < n \<and> n < 2 ^ 32) \<longrightarrow> priv \<noteq> [])"
proof -
  from GeneratePrivate_Inr(1) [OF gen] n
  obtain sz where sz: "private_size dh_const fp (of_nat n) = Inr sz"
    and len: "length priv = unat sz"
    by auto
  have heuristic: "length priv \<le> n" if "\<not> dh_const"
  proof -
    from that sz have "sz \<le> of_nat n"
      by (simp add: private_size_heuristic_le)
    then have "unat sz \<le> unat (of_nat n :: word32)"
      by (simp add: word_le_nat_alt)
    also have "\<dots> \<le> n"
      by (simp add: unat_of_nat)
    finally show ?thesis
      by (simp add: len)
  qed
  have table: "length priv \<in> {21, 29, 34, 39, 42, 46, 49, 52}" if "dh_const"
    using that sz private_size_const_values [of fp "of_nat n" sz]
    by (auto simp add: len)
  have entry: "(n + 127) div 128 \<in> {1..8}
          \<and> length priv = [21, 29, 34, 39, 42, 46, 49, 52] ! ((n + 127) div 128 - 1)"
    if "dh_const" "n < 2 ^ 32"
    using that sz private_size_const_entry [of fp n sz]
    by (simp add: len)
  have bounded: "length priv \<le> n" if "dh_const" "21 \<le> n"
  proof (cases "n < 128")
    case True
    with that sz have "sz = 21"
      by (simp add: private_size_const_small)
    with that show ?thesis
      by (simp add: len)
  next
    case False
    with table [OF that(1)] show ?thesis
      by auto
  qed
  have bits: "hd priv AND 0x0C = 0x0C" if "priv \<noteq> []"
    using that by (rule GeneratePrivate_Inr(2) [OF gen])
  have nonempty: "priv \<noteq> []" if "dh_const \<or> (0 < n \<and> n < 2 ^ 32)"
  proof (cases dh_const)
    case True
    with table have "0 < length priv"
      by auto
    then show ?thesis
      by simp
  next
    case False
    with that have "0 < n" "n < 2 ^ 32"
      by simp_all
    then have "unat (of_nat n :: word32) = n"
      by (simp add: unat_of_nat)
    with \<open>0 < n\<close> have "(of_nat n :: word32) \<noteq> 0"
      by (auto simp flip: unat_eq_0)
    with False sz have "sz \<noteq> 0"
      by (simp add: private_size_heuristic_nonzero)
    then have "0 < unat sz"
      by (simp add: unat_gt_0)
    then show ?thesis
      by (auto simp add: len [symmetric])
  qed
  from heuristic table entry bounded bits nonempty show ?thesis
    by blast
qed

lemma size_of_23: "mp_unsigned_bin_size (ready_engine [0x17] [5]) (Key_p 0) = 1"
  by (simp add: mp_unsigned_bin_size_def ready_engine_simps)

text \<open>
  The modulus 23 under the heuristic policy: one byte, with the bits set. A modulus of
  129 bytes under the fixed-table policy: two blocks, and 29 bytes.
\<close>

theorem GeneratePrivate_length_and_bits_witness:
  "(GeneratePrivate False (constant_estimate 2) 0 (constant_rng 0) (ready_engine [0x17] [5])
      = Inr [0x0C]
    \<and> 1 = mp_unsigned_bin_size (ready_engine [0x17] [5]) (Key_p 0)
    \<and> length [0x0C :: byte] \<le> 1
    \<and> hd [0x0C :: byte] AND 0x0C = 0x0C)
   \<and> (\<exists>priv. GeneratePrivate True (constant_estimate 2) 0 (constant_rng 0)
                 (fresh_engine\<lparr>vals := (\<lambda>h. 256 ^ 128)\<rparr>) = Inr priv
             \<and> 129 = mp_unsigned_bin_size (fresh_engine\<lparr>vals := (\<lambda>h. 256 ^ 128)\<rparr>) (Key_p 0)
             \<and> length priv = 29)"
proof -
  have gen: "GeneratePrivate False (constant_estimate 2) 0 (constant_rng 0)
               (ready_engine [0x17] [5]) = Inr [0x0C]"
    by (simp add: GeneratePrivate_def size_of_23 private_size_def WOLFSSL_DH_ROUND_def
        DiscreteLogWorkFactor_def WOLFSSL_BIT_SIZE_def constant_estimate_def
        wc_RNG_GenerateBlock_def constant_rng_def)
  have n: "1 = mp_unsigned_bin_size (ready_engine [0x17] [5]) (Key_p 0)"
    by (simp add: size_of_23)
  from GeneratePrivate_length_and_bits [OF gen n] gen n
  have heuristic: "GeneratePrivate False (constant_estimate 2) 0 (constant_rng 0)
        (ready_engine [0x17] [5]) = Inr [0x0C]
    \<and> 1 = mp_unsigned_bin_size (ready_engine [0x17] [5]) (Key_p 0)
    \<and> length [0x0C :: byte] \<le> 1
    \<and> hd [0x0C :: byte] AND 0x0C = 0x0C"
    by simp
  have "vals (fresh_engine\<lparr>vals := (\<lambda>h. 256 ^ 128)\<rparr>) (Key_p 0) = 256 ^ 128"
    by simp
  then have "mp_unsigned_bin_size (fresh_engine\<lparr>vals := (\<lambda>h. 256 ^ 128)\<rparr>) (Key_p 0)
               = Suc 128"
    by (rule mp_unsigned_bin_size_power)
  then have n2: "129 = mp_unsigned_bin_size (fresh_engine\<lparr>vals := (\<lambda>h. 256 ^ 128)\<rparr>) (Key_p 0)"
    by simp
  have "private_size True (constant_estimate 2) (of_nat 129) = Inr 29"
    by (simp add: private_size_def WOLFSSL_DH_ROUND_def)
  with n2 have "private_size True (constant_estimate 2)
      (of_nat (mp_unsigned_bin_size (fresh_engine\<lparr>vals := (\<lambda>h. 256 ^ 128)\<rparr>) (Key_p 0)))
      = Inr 29"
    by (simp only:)
  with GeneratePrivate_succeeds [of "constant_rng 0" True "constant_estimate 2"
      "fresh_engine\<lparr>vals := (\<lambda>h. 256 ^ 128)\<rparr>" 0 29]
  obtain priv where gen2: "GeneratePrivate True (constant_estimate 2) 0 (constant_rng 0)
                 (fresh_engine\<lparr>vals := (\<lambda>h. 256 ^ 128)\<rparr>) = Inr priv"
    by (auto simp add: constant_rng_def)
  from GeneratePrivate_length_and_bits [OF gen2 n2]
  have "length priv = 29"
    by simp
  with gen2 n2 heuristic show ?thesis
    by blast
qed

text \<open>
  The modulus 23 under the fixed-table policy: its one byte is rounded up to 128, and the
  private value has 21 bytes.
\<close>

theorem GeneratePrivate_length_counterexample:
  "mp_unsigned_bin_size (ready_engine [0x17] [5]) (Key_p 0) = 1
   \<and> GeneratePrivate True (constant_estimate 2) 0 (constant_rng 0) (ready_engine [0x17] [5])
       = Inr (0x0C # replicate 20 0)
   \<and> length (0x0C # replicate 20 (0::byte)) = 21"
proof -
  have "map (\<lambda>i. 0::byte) [0..<21] = 0 # replicate 20 0"
    by (simp add: map_replicate_const eval_nat_numeral)
  then show ?thesis
    by (simp add: GeneratePrivate_def size_of_23 private_size_def WOLFSSL_DH_ROUND_def
        wc_RNG_GenerateBlock_def constant_rng_def)
qed

text \<open>
  Claim C5. For the modulus byte lengths 128, 256, 384, 512, 640, 768, 896 and 1024 the
  sizing step of \<^verbatim>\<open>GeneratePrivate\<close> selects 21, 29, 34, 39, 42, 46, 49 and 52 bytes,
  under both policies and whatever the work-factor estimate is; and when the random
  source succeeds, \<^verbatim>\<open>GeneratePrivate\<close> hands back as many bytes as the sizing step
  selected.
\<close>

theorem private_size_table:
  "(private_size dh_const fp 128 = Inr 21 \<and> private_size dh_const fp 256 = Inr 29
    \<and> private_size dh_const fp 384 = Inr 34 \<and> private_size dh_const fp 512 = Inr 39
    \<and> private_size dh_const fp 640 = Inr 42 \<and> private_size dh_const fp 768 = Inr 46
    \<and> private_size dh_const fp 896 = Inr 49 \<and> private_size dh_const fp 1024 = Inr 52)
   \<and> (rng_ret rng = 0 \<and> mp_unsigned_bin_size e (Key_p k) = n
       \<and> private_size dh_const fp (of_nat n) = Inr sz \<longrightarrow>
        (\<exists>priv. GeneratePrivate dh_const fp k rng e = Inr priv \<and> length priv = unat sz))"
proof -
  have table:
    "private_size dh_const fp 128 = Inr 21 \<and> private_size dh_const fp 256 = Inr 29
     \<and> private_size dh_const fp 384 = Inr 34 \<and> private_size dh_const fp 512 = Inr 39
     \<and> private_size dh_const fp 640 = Inr 42 \<and> private_size dh_const fp 768 = Inr 46
     \<and> private_size dh_const fp 896 = Inr 49 \<and> private_size dh_const fp 1024 = Inr 52"
    by (simp add: private_size_def WOLFSSL_DH_ROUND_def)
  have handed: "\<exists>priv. GeneratePrivate dh_const fp k rng e = Inr priv \<and> length priv = unat sz"
    if "rng_ret rng = 0" "mp_unsigned_bin_size e (Key_p k) = n"
      "private_size dh_const fp (of_nat n) = Inr sz"
    using that GeneratePrivate_succeeds [of rng dh_const fp e k sz] by simp
  from table handed show ?thesis
    by blast
qed

text \<open>The modulus \<open>256 ^ 127\<close> has 128 bytes; the private value has 21.\<close>

theorem private_size_table_witness:
  "rng_ret (constant_rng 0) = 0
   \<and> mp_unsigned_bin_size (fresh_engine\<lparr>vals := (\<lambda>h. 256 ^ 127)\<rparr>) (Key_p 0) = 128
   \<and> private_size True (constant_estimate 0) (of_nat 128) = Inr 21
   \<and> (\<exists>priv. GeneratePrivate True (constant_estimate 0) 0 (constant_rng 0)
                (fresh_engine\<lparr>vals := (\<lambda>h. 256 ^ 127)\<rparr>) = Inr priv
             \<and> length priv = unat (21 :: word32))"
proof -
  have rng: "rng_ret (constant_rng 0) = 0"
    by (simp add: constant_rng_def)
  have "vals (fresh_engine\<lparr>vals := (\<lambda>h. 256 ^ 127)\<rparr>) (Key_p 0) = 256 ^ 127"
    by simp
  then have "mp_unsigned_bin_size (fresh_engine\<lparr>vals := (\<lambda>h. 256 ^ 127)\<rparr>) (Key_p 0)
               = Suc 127"
    by (rule mp_unsigned_bin_size_power)
  then have n: "mp_unsigned_bin_size (fresh_engine\<lparr>vals := (\<lambda>h. 256 ^ 127)\<rparr>) (Key_p 0) = 128"
    by simp
  have sz: "private_size True (constant_estimate 0) (of_nat 128) = Inr 21"
    using private_size_table [of True "constant_estimate 0"] by simp
  from private_size_table [of True "constant_estimate 0" "constant_rng 0"
      "fresh_engine\<lparr>vals := (\<lambda>h. 256 ^ 127)\<rparr>" 0 128 21] rng n sz
  have "\<exists>priv. GeneratePrivate True (constant_estimate 0) 0 (constant_rng 0)
                (fresh_engine\<lparr>vals := (\<lambda>h. 256 ^ 127)\<rparr>) = Inr priv
             \<and> length priv = unat (21 :: word32)"
    by blast
  with rng n sz show ?thesis
    by (intro conjI)
qed

section \<open>Loading the domain parameters\<close>

lemma skip_leading_zero_simps [simp]:
  "skip_leading_zero (0 # bs) = bs"
  "b \<noteq> 0 \<Longrightarrow> skip_leading_zero (b # bs) = b # bs"
  by (simp_all add: skip_leading_zero_def)

text \<open>The run of \<^verbatim>\<open>wc_DhSetKey\<close> on which no engine call fails.\<close>

lemma wc_DhSetKey_nofault:
  assumes "faults e = []" and "pb \<noteq> []" and "gb \<noteq> []"
  shows "fst (wc_DhSetKey (Some k) (Some pb) (Some gb) e) = Inr ()"
    and "new_events e (snd (wc_DhSetKey (Some k) (Some pb) (Some gb) e)) =
           [E_init [Key_p k], E_read (Key_p k) (skip_leading_zero pb),
            E_init [Key_g k], E_read (Key_g k) (skip_leading_zero gb)]"
    and "vals (snd (wc_DhSetKey (Some k) (Some pb) (Some gb) e)) (Key_p k) =
           int (read_unsigned_bin (skip_leading_zero pb))"
    and "vals (snd (wc_DhSetKey (Some k) (Some pb) (Some gb) e)) (Key_g k) =
           int (read_unsigned_bin (skip_leading_zero gb))"
  using assms
  by (simp_all add: wc_DhSetKey_def engine_defs Let_def new_events_def)

text \<open>
  Claim C6. When no engine call fails, \<^verbatim>\<open>wc_DhSetKey\<close> on two non-empty buffers
  succeeds and hands to the decoder, for \<open>p\<close> and for \<open>g\<close>, the buffer without its first
  byte when that byte is 0 and the whole buffer otherwise: of two leading zero bytes the
  second is handed on. The modulus stored for \<open>[0x00, 0x17]\<close> is the one stored for
  \<open>[0x17]\<close>.
\<close>

theorem wc_DhSetKey_strips_one_zero:
  assumes "faults e = []" and "pb \<noteq> []" and "gb \<noteq> []"
  shows "fst (wc_DhSetKey (Some k) (Some pb) (Some gb) e) = Inr ()
       \<and> new_events e (snd (wc_DhSetKey (Some k) (Some pb) (Some gb) e)) =
           [E_init [Key_p k], E_read (Key_p k) (skip_leading_zero pb),
            E_init [Key_g k], E_read (Key_g k) (skip_leading_zero gb)]
       \<and> vals (snd (wc_DhSetKey (Some k) (Some pb) (Some gb) e)) (Key_p k) =
           int (read_unsigned_bin (skip_leading_zero pb))
       \<and> vals (snd (wc_DhSetKey (Some k) (Some pb) (Some gb) e)) (Key_g k) =
           int (read_unsigned_bin (skip_leading_zero gb))
       \<and> skip_leading_zero (0 # bs) = bs
       \<and> skip_leading_zero (0 # 0 # bs) = 0 # bs
       \<and> (b \<noteq> 0 \<longrightarrow> skip_leading_zero (b # bs) = b # bs)
       \<and> vals (snd (wc_DhSetKey (Some k) (Some [0x00, 0x17]) (Some [0x05]) e)) (Key_p k)
           = vals (snd (wc_DhSetKey (Some k) (Some [0x17]) (Some [0x05]) e)) (Key_p k)"
  using assms wc_DhSetKey_nofault [of e pb gb k]
    wc_DhSetKey_nofault(3) [of e "[0x00, 0x17]" "[0x05]" k]
    wc_DhSetKey_nofault(3) [of e "[0x17]" "[0x05]" k]
  by simp

theorem wc_DhSetKey_strips_one_zero_witness:
  "faults fresh_engine = [] \<and> [0x00, 0x00, 0x17] \<noteq> ([] :: byte list)
   \<and> [0x00, 0x05] \<noteq> ([] :: byte list)
   \<and> fst (wc_DhSetKey (Some 0) (Some [0x00, 0x00, 0x17]) (Some [0x00, 0x05]) fresh_engine)
       = Inr ()
   \<and> new_events fresh_engine
        (snd (wc_DhSetKey (Some 0) (Some [0x00, 0x00, 0x17]) (Some [0x00, 0x05]) fresh_engine))
       = [E_init [Key_p 0], E_read (Key_p 0) [0x00, 0x17],
          E_init [Key_g 0], E_read (Key_g 0) [0x05]]
   \<and> vals (snd (wc_DhSetKey (Some 0) (Some [0x00, 0x00, 0x17]) (Some [0x00, 0x05])
                  fresh_engine)) (Key_p 0) = 23"
  using wc_DhSetKey_strips_one_zero [of fresh_engine "[0x00, 0x00, 0x17]" "[0x00, 0x05]" 0]
  by (simp add: fresh_engine_def read_unsigned_bin_def)

text \<open>
  Claim C9. \<^verbatim>\<open>wc_DhSetKey\<close> returns \<^verbatim>\<open>BAD_FUNC_ARG\<close> exactly when the key or a buffer
  is \<^verbatim>\<open>NULL\<close> or a buffer is empty; the test precedes the removal of the leading zero.
  So the one-byte buffer \<open>[0]\<close> is not refused: when no engine call fails the decoder
  receives the empty buffer and the stored modulus, or generator, is 0.
\<close>

theorem wc_DhSetKey_single_zero:
  "(fst (wc_DhSetKey key p g e) = Inl BAD_FUNC_ARG
      \<longleftrightarrow> key = None \<or> p = None \<or> g = None \<or> p = Some [] \<or> g = Some [])
   \<and> (gb \<noteq> [] \<longrightarrow> fst (wc_DhSetKey (Some k) (Some [0]) (Some gb) e) \<noteq> Inl BAD_FUNC_ARG)
   \<and> (faults e = [] \<and> gb \<noteq> [] \<longrightarrow>
        fst (wc_DhSetKey (Some k) (Some [0]) (Some gb) e) = Inr ()
      \<and> new_events e (snd (wc_DhSetKey (Some k) (Some [0]) (Some gb) e)) =
           [E_init [Key_p k], E_read (Key_p k) [],
            E_init [Key_g k], E_read (Key_g k) (skip_leading_zero gb)]
      \<and> vals (snd (wc_DhSetKey (Some k) (Some [0]) (Some gb) e)) (Key_p k) = 0)
   \<and> (faults e = [] \<and> pb \<noteq> [] \<longrightarrow>
        fst (wc_DhSetKey (Some k) (Some pb) (Some [0]) e) = Inr ()
      \<and> new_events e (snd (wc_DhSetKey (Some k) (Some pb) (Some [0]) e)) =
           [E_init [Key_p k], E_read (Key_p k) (skip_leading_zero pb),
            E_init [Key_g k], E_read (Key_g k) []]
      \<and> vals (snd (wc_DhSetKey (Some k) (Some pb) (Some [0]) e)) (Key_g k) = 0)"
proof -
  have refused: "fst (wc_DhSetKey key p g e) = Inl BAD_FUNC_ARG
      \<longleftrightarrow> key = None \<or> p = None \<or> g = None \<or> p = Some [] \<or> g = Some []"
    by (auto simp add: wc_DhSetKey_def case_prod_beta Let_def
        split: option.splits bool.splits)
  have kept: "fst (wc_DhSetKey (Some k) (Some [0]) (Some gb) e) \<noteq> Inl BAD_FUNC_ARG"
    if "gb \<noteq> []"
    using that
    by (auto simp add: wc_DhSetKey_def case_prod_beta Let_def
        split: option.splits bool.splits)
  have zero_p: "fst (wc_DhSetKey (Some k) (Some [0]) (Some gb) e) = Inr ()
      \<and> new_events e (snd (wc_DhSetKey (Some k) (Some [0]) (Some gb) e)) =
           [E_init [Key_p k], E_read (Key_p k) [],
            E_init [Key_g k], E_read (Key_g k) (skip_leading_zero gb)]
      \<and> vals (snd (wc_DhSetKey (Some k) (Some [0]) (Some gb) e)) (Key_p k) = 0"
    if "faults e = []" "gb \<noteq> []"
    using that wc_DhSetKey_nofault [of e "[0]" gb k]
    by (simp add: read_unsigned_bin_def)
  have zero_g: "fst (wc_DhSetKey (Some k) (Some pb) (Some [0]) e) = Inr ()
      \<and> new_events e (snd (wc_DhSetKey (Some k) (Some pb) (Some [0]) e)) =
           [E_init [Key_p k], E_read (Key_p k) (skip_leading_zero pb),
            E_init [Key_g k], E_read (Key_g k) []]
      \<and> vals (snd (wc_DhSetKey (Some k) (Some pb) (Some [0]) e)) (Key_g k) = 0"
    if "faults e = []" "pb \<noteq> []"
    using that wc_DhSetKey_nofault [of e pb "[0]" k]
    by (simp add: read_unsigned_bin_def)
  from refused kept zero_p zero_g show ?thesis
    by blast
qed

theorem wc_DhSetKey_single_zero_witness:
  "faults fresh_engine = [] \<and> [0x05] \<noteq> ([] :: byte list)
   \<and> fst (wc_DhSetKey (Some 0) (Some [0]) (Some [0x05]) fresh_engine) = Inr ()
   \<and> new_events fresh_engine (snd (wc_DhSetKey (Some 0) (Some [0]) (Some [0x05]) fresh_engine))
       = [E_init [Key_p 0], E_read (Key_p 0) [], E_init [Key_g 0], E_read (Key_g 0) [0x05]]
   \<and> vals (snd (wc_DhSetKey (Some 0) (Some [0]) (Some [0x05]) fresh_engine)) (Key_p 0) = 0"
  using wc_DhSetKey_single_zero [of "Some 0" "Some [0]" "Some [0x05]" fresh_engine "[0x05]" 0 "[0x05]"]
  by (simp add: fresh_engine_def)

text \<open>
  Claim C7, as the code has it. Whenever \<^verbatim>\<open>wc_DhSetKey\<close> fails, no handle is allocated
  that was not allocated on entry; and when the key object is unset on entry, the set of
  allocated handles is what it was, so that neither \<open>p\<close> nor \<open>g\<close> is left allocated. From
  every state: when \<open>p\<close> has been decoded and the initialisation of \<open>g\<close> fails, the last
  engine call is the release of \<open>p\<close>, and \<open>p\<close> is not allocated on return; when the
  decoding of \<open>g\<close> fails, \<open>g\<close> and then \<open>p\<close> are released, and neither is allocated on
  return.
\<close>

theorem wc_DhSetKey_releases_on_failure:
  "((\<exists>err. fst (wc_DhSetKey (Some k) p g e) = Inl err) \<longrightarrow>
        live (snd (wc_DhSetKey (Some k) p g e)) \<subseteq> live e
      \<and> (Key_p k \<notin> live e \<and> Key_g k \<notin> live e \<longrightarrow>
            live (snd (wc_DhSetKey (Some k) p g e)) = live e))
   \<and> (pb \<noteq> [] \<and> gb \<noteq> [] \<and> faults e = False # False # True # fs \<longrightarrow>
        fst (wc_DhSetKey (Some k) (Some pb) (Some gb) e) = Inl MP_INIT_E
      \<and> new_events e (snd (wc_DhSetKey (Some k) (Some pb) (Some gb) e)) =
          [E_init [Key_p k], E_read (Key_p k) (skip_leading_zero pb),
           E_init [Key_g k], E_clear (Key_p k)]
      \<and> Key_p k \<notin> live (snd (wc_DhSetKey (Some k) (Some pb) (Some gb) e)))
   \<and> (pb \<noteq> [] \<and> gb \<noteq> [] \<and> faults e = False # False # False # True # fs \<longrightarrow>
        fst (wc_DhSetKey (Some k) (Some pb) (Some gb) e) = Inl ASN_DH_KEY_E
      \<and> new_events e (snd (wc_DhSetKey (Some k) (Some pb) (Some gb) e)) =
          [E_init [Key_p k], E_read (Key_p k) (skip_leading_zero pb),
           E_init [Key_g k], E_read (Key_g k) (skip_leading_zero gb),
           E_clear (Key_g k), E_clear (Key_p k)]
      \<and> Key_p k \<notin> live (snd (wc_DhSetKey (Some k) (Some pb) (Some gb) e))
      \<and> Key_g k \<notin> live (snd (wc_DhSetKey (Some k) (Some pb) (Some gb) e)))"
proof -
  have nothing_new: "live (snd (wc_DhSetKey (Some k) p g e)) \<subseteq> live e"
    if "fst (wc_DhSetKey (Some k) p g e) = Inl err" for err
    using that
    by (auto simp add: wc_DhSetKey_def case_prod_beta Let_def
        split: option.splits bool.splits if_splits)
  have released: "live (snd (wc_DhSetKey (Some k) p g e)) = live e"
    if "fst (wc_DhSetKey (Some k) p g e) = Inl err"
      and "Key_p k \<notin> live e" and "Key_g k \<notin> live e" for err
    using that
    by (auto simp add: wc_DhSetKey_def case_prod_beta Let_def
        split: option.splits bool.splits if_splits)
  have g_init: "fst (wc_DhSetKey (Some k) (Some pb) (Some gb) e) = Inl MP_INIT_E
          \<and> new_events e (snd (wc_DhSetKey (Some k) (Some pb) (Some gb) e)) =
              [E_init [Key_p k], E_read (Key_p k) (skip_leading_zero pb),
               E_init [Key_g k], E_clear (Key_p k)]
          \<and> Key_p k \<notin> live (snd (wc_DhSetKey (Some k) (Some pb) (Some gb) e))"
    if "pb \<noteq> []" "gb \<noteq> []" "faults e = False # False # True # fs"
    using that by (simp add: wc_DhSetKey_def engine_defs Let_def new_events_def)
  have g_read: "fst (wc_DhSetKey (Some k) (Some pb) (Some gb) e) = Inl ASN_DH_KEY_E
          \<and> new_events e (snd (wc_DhSetKey (Some k) (Some pb) (Some gb) e)) =
              [E_init [Key_p k], E_read (Key_p k) (skip_leading_zero pb),
               E_init [Key_g k], E_read (Key_g k) (skip_leading_zero gb),
               E_clear (Key_g k), E_clear (Key_p k)]
          \<and> Key_p k \<notin> live (snd (wc_DhSetKey (Some k) (Some pb) (Some gb) e))
          \<and> Key_g k \<notin> live (snd (wc_DhSetKey (Some k) (Some pb) (Some gb) e))"
    if "pb \<noteq> []" "gb \<noteq> []" "faults e = False # False # False # True # fs"
    using that by (simp add: wc_DhSetKey_def engine_defs Let_def new_events_def)
  from nothing_new released g_init g_read show ?thesis
    by blast
qed

text \<open>The decoding of \<open>g\<close> fails on a fresh engine: nothing is left allocated.\<close>

theorem wc_DhSetKey_releases_on_failure_witness:
  "(Key_p 0 \<notin> live (fresh_engine\<lparr>faults := [False, False, False, True]\<rparr>)
    \<and> Key_g 0 \<notin> live (fresh_engine\<lparr>faults := [False, False, False, True]\<rparr>))
   \<and> fst (wc_DhSetKey (Some 0) (Some [0x17]) (Some [0x05])
            (fresh_engine\<lparr>faults := [False, False, False, True]\<rparr>)) = Inl ASN_DH_KEY_E
   \<and> live (snd (wc_DhSetKey (Some 0) (Some [0x17]) (Some [0x05])
                  (fresh_engine\<lparr>faults := [False, False, False, True]\<rparr>))) = {}"
proof -
  have unset: "Key_p 0 \<notin> live (fresh_engine\<lparr>faults := [False, False, False, True]\<rparr>)"
    "Key_g 0 \<notin> live (fresh_engine\<lparr>faults := [False, False, False, True]\<rparr>)"
    by (simp_all add: fresh_engine_def)
  have sched: "faults (fresh_engine\<lparr>faults := [False, False, False, True]\<rparr>)
                 = False # False # False # True # []"
    by simp
  note at_input = wc_DhSetKey_releases_on_failure
    [of 0 "Some [0x17]" "Some [0x05]" "fresh_engine\<lparr>faults := [False, False, False, True]\<rparr>"
      "[0x17]" "[0x05]" "[]"]
  from at_input sched
  have failed: "fst (wc_DhSetKey (Some 0) (Some [0x17]) (Some [0x05])
            (fresh_engine\<lparr>faults := [False, False, False, True]\<rparr>)) = Inl ASN_DH_KEY_E"
    by simp
  with at_input unset
  have "live (snd (wc_DhSetKey (Some 0) (Some [0x17]) (Some [0x05])
                  (fresh_engine\<lparr>faults := [False, False, False, True]\<rparr>)))
          = live (fresh_engine\<lparr>faults := [False, False, False, True]\<rparr>)"
    by blast
  then have "live (snd (wc_DhSetKey (Some 0) (Some [0x17]) (Some [0x05])
                  (fresh_engine\<lparr>faults := [False, False, False, True]\<rparr>))) = {}"
    by (simp add: fresh_engine_def)
  with unset failed show ?thesis
    by (intro conjI)
qed

text \<open>
  On a key that is set, a call refused for an empty buffer leaves \<open>p\<close> and \<open>g\<close> allocated,
  and a call whose decoding of \<open>p\<close> fails releases \<open>p\<close> and leaves the former \<open>g\<close>. After
  \<^verbatim>\<open>wc_InitDhKey\<close>, a call in which \<open>p\<close> is decoded and the initialisation of \<open>g\<close> fails
  leaves \<open>g\<close> allocated.
\<close>

theorem wc_DhSetKey_releases_counterexample:
  "(fst (wc_DhSetKey (Some 0) (Some [0x17]) (Some []) (ready_engine [0x17] [5]))
      = Inl BAD_FUNC_ARG
    \<and> live (snd (wc_DhSetKey (Some 0) (Some [0x17]) (Some []) (ready_engine [0x17] [5])))
      = {Key_p 0, Key_g 0})
   \<and> (fst (wc_DhSetKey (Some 0) (Some [0x17]) (Some [0x05])
             ((ready_engine [0x17] [5])\<lparr>faults := [False, True]\<rparr>)) = Inl ASN_DH_KEY_E
    \<and> live (snd (wc_DhSetKey (Some 0) (Some [0x17]) (Some [0x05])
             ((ready_engine [0x17] [5])\<lparr>faults := [False, True]\<rparr>))) = {Key_g 0})
   \<and> (fst (wc_InitDhKey (Some 0) (fresh_engine\<lparr>faults := [False, False, False, True]\<rparr>))
      = Inr ()
    \<and> fst (wc_DhSetKey (Some 0) (Some [0x17]) (Some [0x05])
             (snd (wc_InitDhKey (Some 0)
                     (fresh_engine\<lparr>faults := [False, False, False, True]\<rparr>))))
      = Inl MP_INIT_E
    \<and> live (snd (wc_DhSetKey (Some 0) (Some [0x17]) (Some [0x05])
             (snd (wc_InitDhKey (Some 0)
                     (fresh_engine\<lparr>faults := [False, False, False, True]\<rparr>)))))
      = {Key_g 0})"
proof -
  have refused: "fst (wc_DhSetKey (Some 0) (Some [0x17]) (Some []) (ready_engine [0x17] [5]))
      = Inl BAD_FUNC_ARG
    \<and> live (snd (wc_DhSetKey (Some 0) (Some [0x17]) (Some []) (ready_engine [0x17] [5])))
      = {Key_p 0, Key_g 0}"
    by (simp add: wc_DhSetKey_def ready_engine_live)
  have p_fails: "fst (wc_DhSetKey (Some 0) (Some [0x17]) (Some [0x05])
             ((ready_engine [0x17] [5])\<lparr>faults := [False, True]\<rparr>)) = Inl ASN_DH_KEY_E
    \<and> live (snd (wc_DhSetKey (Some 0) (Some [0x17]) (Some [0x05])
             ((ready_engine [0x17] [5])\<lparr>faults := [False, True]\<rparr>))) = {Key_g 0}"
    by (auto simp add: wc_DhSetKey_def engine_defs Let_def ready_engine_live)
  have after_init: "fst (wc_InitDhKey (Some 0)
        (fresh_engine\<lparr>faults := [False, False, False, True]\<rparr>)) = Inr ()
    \<and> fst (wc_DhSetKey (Some 0) (Some [0x17]) (Some [0x05])
             (snd (wc_InitDhKey (Some 0)
                     (fresh_engine\<lparr>faults := [False, False, False, True]\<rparr>))))
      = Inl MP_INIT_E
    \<and> live (snd (wc_DhSetKey (Some 0) (Some [0x17]) (Some [0x05])
             (snd (wc_InitDhKey (Some 0)
                     (fresh_engine\<lparr>faults := [False, False, False, True]\<rparr>)))))
      = {Key_g 0}"
    by (auto simp add: wc_InitDhKey_def wc_DhSetKey_def engine_defs Let_def fresh_engine_def)
  from refused p_fails after_init show ?thesis
    by (intro conjI) blast+
qed

end
